theory Spec2Isabelle
  imports Main "HOL-Library.Sublist"
begin

section \<open>Data model of \<open>content_researcher.py\<close>\<close>

text \<open>
  A Python \<open>str\<close> is modelled as a \<^typ>\<open>string\<close>: the list of the bytes of its UTF-8
  encoding. The prompt texts below are the literals of the source, byte for byte,
  including the indentation and the trailing blanks that the triple-quoted literals carry.
\<close>

datatype PostFormat = FACTS_WITH_EMOJI | STORY_BASED | GUIDE_BASED | INDUSTRY_INSIGHT

fun PostFormat_value :: "PostFormat \<Rightarrow> string" where
  "PostFormat_value FACTS_WITH_EMOJI = ''facts_with_emoji''"
| "PostFormat_value STORY_BASED = ''story_based''"
| "PostFormat_value GUIDE_BASED = ''guide_based''"
| "PostFormat_value INDUSTRY_INSIGHT = ''industry_insight''"

text \<open>
  The annotation \<open>format_type: PostFormat\<close> is not checked by Python, so the field can hold
  any object. Besides the four enum members the model has the two kinds of stray value
  a caller is likely to pass: a plain \<open>str\<close> (for instance the member's value
  \<open>"story_based"\<close>, which is not equal to the member) and \<open>None\<close>. All of them are
  hashable, so \<open>dict.get\<close> accepts them; an unhashable object, which \<open>dict.get\<close>
  rejects with \<open>TypeError\<close>, is not among the values of the model.
\<close>

datatype format_value = Member PostFormat | PyStr string | PyNone

text \<open>\<open>class PostConfig\<close>: the constructor stores its four arguments unchanged.
  The field \<open>length\<close> is named \<open>length_field\<close> here.\<close>

record PostConfig =
  format_type :: format_value
  topic :: string
  length_field :: string
  is_customer_story :: bool

text \<open>\<open>PostConfig.__init__\<close>; \<open>None\<close> for an argument left to its default.\<close>

definition PostConfig_init ::
  "format_value \<Rightarrow> string \<Rightarrow> string option \<Rightarrow> bool option \<Rightarrow> PostConfig" where
  "PostConfig_init ft tp len ics =
     \<lparr> format_type = ft,
       topic = tp,
       length_field = (case len of None \<Rightarrow> ''medium'' | Some l \<Rightarrow> l),
       is_customer_story = (case ics of None \<Rightarrow> False | Some b \<Rightarrow> b) \<rparr>"

text \<open>The exceptions that the code raises itself or lets through; \<open>ServiceError\<close> stands
  for any failure of a service or of the transport.\<close>

datatype error =
    KeyError string
  | ValueError string
  | IndexError
  | EOFError
  | RecursionError
  | ServiceError string

text \<open>Subscription \<open>d[k]\<close> of a dictionary with string keys.\<close>

definition getitem :: "(string \<rightharpoonup> 'v) \<Rightarrow> string \<Rightarrow> error + 'v" where
  "getitem d k = (case d k of None \<Rightarrow> Inl (KeyError k) | Some v \<Rightarrow> Inr v)"

section \<open>The prompt texts\<close>

text \<open>The non-ASCII characters of the templates, as UTF-8 bytes: the keycap suffix
  U+FE0F U+20E3 that follows a digit, and the emoji U+1F4A1, U+1F50D, U+26A1, U+1F447,
  U+1F9E0, U+1F916 and U+1F37D U+FE0F.\<close>

definition keycap :: string where
  "keycap = [CHR 0xEF, CHR 0xB8, CHR 0x8F, CHR 0xE2, CHR 0x83, CHR 0xA3]"

definition emoji_bulb :: string where
  "emoji_bulb = [CHR 0xF0, CHR 0x9F, CHR 0x92, CHR 0xA1]"

definition emoji_magnifier :: string where
  "emoji_magnifier = [CHR 0xF0, CHR 0x9F, CHR 0x94, CHR 0x8D]"

definition emoji_zap :: string where
  "emoji_zap = [CHR 0xE2, CHR 0x9A, CHR 0xA1]"

definition emoji_point_down :: string where
  "emoji_point_down = [CHR 0xF0, CHR 0x9F, CHR 0x91, CHR 0x87]"

definition emoji_brain :: string where
  "emoji_brain = [CHR 0xF0, CHR 0x9F, CHR 0xA7, CHR 0xA0]"

definition emoji_robot :: string where
  "emoji_robot = [CHR 0xF0, CHR 0x9F, CHR 0xA4, CHR 0x96]"

definition emoji_plate :: string where
  "emoji_plate = [CHR 0xF0, CHR 0x9F, CHR 0x8D, CHR 0xBD, CHR 0xEF, CHR 0xB8, CHR 0x8F]"

text \<open>
  The literal pieces of the f-strings of \<open>_create_format_prompt\<close> and
  \<open>_create_revision_prompt\<close>. A template is \<open>head @ length guide @ template_tail\<close>;
  the industry template also interpolates the topic between its head and its middle.
\<close>

definition customer_story_text :: string where
  "customer_story_text =
     ''\<newline>'' @
     ''        Since this is based on a customer story, make sure to frame it as a real experience \<newline>'' @
     ''        or conversation you had with a client or prospect. Focus on the problem they faced,\<newline>'' @
     ''        the insights you provided, and the valuable lesson that others can learn from.\<newline>'' @
     ''        ''"

definition facts_with_emoji_head :: string where
  "facts_with_emoji_head =
     ''\<newline>'' @
     ''            Structure the post exactly like this:\<newline>'' @
     ''            \<newline>'' @
     ''            [Title] Create an attention-grabbing headline that's insightful without being hyperbolic.\<newline>'' @
     ''            \<newline>'' @
     ''            [Two opening lines about the topic that provide non-obvious, slightly contrarian takes]\<newline>'' @
     ''            \<newline>'' @
     ''            1'' @ keycap @ '' [Point 1]\<newline>'' @
     ''            2'' @ keycap @ '' [Point 2]\<newline>'' @
     ''            3'' @ keycap @ '' [Point 3]\<newline>'' @
     ''            4'' @ keycap @ '' [Point 4]\<newline>'' @
     ''            5'' @ keycap @ '' [Point 5]\<newline>'' @
     ''            \<newline>'' @
     ''            [Two closing lines that are insightful and thought-provoking, drawing on the points above]\<newline>'' @
     ''            \<newline>'' @
     ''            Use exactly 4-5 emojis total throughout the post (including title). Place the emojis naturally within the text.\<newline>'' @
     ''            ''"

definition story_based_head :: string where
  "story_based_head =
     ''\<newline>'' @
     ''            Structure the post as a personal story or customer case study:\<newline>'' @
     ''            \<newline>'' @
     ''            [Opening paragraph describing a real situation or conversation that hooks the reader]\<newline>'' @
     ''            \<newline>'' @
     ''            '' @ emoji_bulb @ '' [Key insight 1 from the situation]\<newline>'' @
     ''            \<newline>'' @
     ''            '' @ emoji_magnifier @ '' [Key insight 2 with deeper analysis]\<newline>'' @
     ''            \<newline>'' @
     ''            '' @ emoji_zap @ '' [Practical takeaway or lesson learned]\<newline>'' @
     ''            \<newline>'' @
     ''            [Final thought and question to engage readers]\<newline>'' @
     ''            \<newline>'' @
     ''            Use 3-4 emojis strategically placed throughout the post.\<newline>'' @
     ''            ''"

definition guide_based_head :: string where
  "guide_based_head =
     ''\<newline>'' @
     ''            Structure the post as an educational guide:\<newline>'' @
     ''            \<newline>'' @
     ''            **[Title framed as a guide]** '' @ emoji_point_down @ ''\<newline>'' @
     ''            \<newline>'' @
     ''            [Brief introduction explaining why this topic matters]\<newline>'' @
     ''            \<newline>'' @
     ''            '' @ emoji_brain @ '' [Section 1 - Definition or conceptual explanation]\<newline>'' @
     ''            \<newline>'' @
     ''            '' @ emoji_robot @ '' [Section 2 - Further explanation or comparison]\<newline>'' @
     ''            \<newline>'' @
     ''            '' @ emoji_zap @ '' [Section 3 - Practical application]\<newline>'' @
     ''            \<newline>'' @
     ''            '' @ emoji_bulb @ '' [Key takeaway and why it matters]\<newline>'' @
     ''            \<newline>'' @
     ''            [Engaging question to prompt discussion]\<newline>'' @
     ''            \<newline>'' @
     ''            Use 4-5 emojis thoughtfully placed throughout the post.\<newline>'' @
     ''            ''"

definition industry_insight_head :: string where
  "industry_insight_head =
     ''\<newline>'' @
     ''            Structure the post as an industry insight:\<newline>'' @
     ''            \<newline>'' @
     ''            [Title highlighting an interesting trend or observation about ''"

definition industry_insight_mid :: string where
  "industry_insight_mid =
     ''] '' @ emoji_plate @ ''\<newline>'' @
     ''            \<newline>'' @
     ''            [Opening paragraph setting context for why this matters and mentioning data/trends]\<newline>'' @
     ''            \<newline>'' @
     ''            1'' @ keycap @ '' **[Point 1]**: [Factual insight with specific statistics]\<newline>'' @
     ''            2'' @ keycap @ '' **[Point 2]**: [Factual insight with specific statistics]\<newline>'' @
     ''            3'' @ keycap @ '' **[Point 3]**: [Factual insight with specific statistics]\<newline>'' @
     ''            4'' @ keycap @ '' **[Point 4]**: [Factual insight with specific statistics]\<newline>'' @
     ''            \<newline>'' @
     ''            [Closing thought that makes readers think differently about the topic]\<newline>'' @
     ''            \<newline>'' @
     ''            [Question to engage audience]\<newline>'' @
     ''            \<newline>'' @
     ''            Use 4-5 emojis thoughtfully placed throughout the post.\<newline>'' @
     ''            ''"

definition template_tail :: string where
  "template_tail =
     ''\<newline>'' @
     ''            ''"

definition prompt_gap :: string where
  "prompt_gap =
     ''\<newline>'' @
     ''        \<newline>'' @
     ''        ''"

definition prompt_closing :: string where
  "prompt_closing =
     ''\<newline>'' @
     ''        \<newline>'' @
     ''        Return the post as plain text with proper line breaks.\<newline>'' @
     ''        Do not include any text formatting symbols, just the plain text and emojis.\<newline>'' @
     ''        The reader should leave feeling like they've taken in valuable insights and information.\<newline>'' @
     ''\<newline>'' @
     ''        Here's the research:\<newline>'' @
     ''        ''"

definition revision_head :: string where
  "revision_head =
     ''I need you to revise a LinkedIn post based on specific feedback.\<newline>'' @
     ''\<newline>'' @
     ''Original LinkedIn Post:\<newline>'' @
     ''---\<newline>''"

definition revision_mid :: string where
  "revision_mid =
     ''\<newline>'' @
     ''---\<newline>'' @
     ''\<newline>'' @
     ''Feedback to incorporate:\<newline>'' @
     ''---\<newline>''"

definition revision_tail :: string where
  "revision_tail =
     ''\<newline>'' @
     ''---\<newline>'' @
     ''\<newline>'' @
     ''Please provide a revised version of the post that addresses all the feedback while maintaining the overall structure and tone. \<newline>'' @
     ''Keep the same post format (emoji usage, sections, etc.) unless specifically requested to change in the feedback.\<newline>'' @
     ''Return just the revised post as plain text with proper line breaks, without any additional explanation.\<newline>''"

section \<open>\<open>ClaudePostFormatter._create_format_prompt\<close>\<close>

definition length_guide :: "string \<rightharpoonup> string" where
  "length_guide =
     [''short'' \<mapsto> ''Keep the post concise, around 150-200 words.'',
      ''medium'' \<mapsto> ''Aim for around 250-300 words total.'',
      ''long'' \<mapsto> ''Create a more detailed post of around 350-450 words.'']"

text \<open>
  The dictionary \<open>formats\<close> is built before a template is chosen: all four f-strings are
  evaluated, each with its own \<open>length_guide[config.length]\<close>, so a length that is not a
  key raises \<open>KeyError\<close> whatever the format.
\<close>

definition formats :: "PostConfig \<Rightarrow> error + (PostFormat \<rightharpoonup> string)" where
  "formats config =
     (case getitem length_guide (length_field config) of Inl e \<Rightarrow> Inl e | Inr g1 \<Rightarrow>
     (case getitem length_guide (length_field config) of Inl e \<Rightarrow> Inl e | Inr g2 \<Rightarrow>
     (case getitem length_guide (length_field config) of Inl e \<Rightarrow> Inl e | Inr g3 \<Rightarrow>
     (case getitem length_guide (length_field config) of Inl e \<Rightarrow> Inl e | Inr g4 \<Rightarrow>
        Inr [FACTS_WITH_EMOJI \<mapsto> facts_with_emoji_head @ g1 @ template_tail,
             STORY_BASED \<mapsto> story_based_head @ g2 @ template_tail,
             GUIDE_BASED \<mapsto> guide_based_head @ g3 @ template_tail,
             INDUSTRY_INSIGHT \<mapsto>
               industry_insight_head @ topic config @ industry_insight_mid @ g4 @ template_tail]))))"

text \<open>\<open>d.get(key, default)\<close> on a dictionary keyed by enum members: a key that is not a
  member is never found.\<close>

definition dict_get :: "(PostFormat \<rightharpoonup> string) \<Rightarrow> format_value \<Rightarrow> string \<Rightarrow> string" where
  "dict_get d k dflt =
     (case k of
        Member f \<Rightarrow> (case d f of Some v \<Rightarrow> v | None \<Rightarrow> dflt)
      | _ \<Rightarrow> dflt)"

definition create_format_prompt :: "string \<Rightarrow> PostConfig \<Rightarrow> error + string" where
  "create_format_prompt research_content config =
     (let base_prompt = ''Format this research about '' @ topic config @ '' into a LinkedIn post.''
      in case formats config of
           Inl e \<Rightarrow> Inl e
         | Inr fs \<Rightarrow>
             (let customer_story_note =
                    (if is_customer_story config then customer_story_text else [])
              in case fs FACTS_WITH_EMOJI of
                   None \<Rightarrow> Inl (KeyError ''PostFormat.FACTS_WITH_EMOJI'')
                 | Some dflt \<Rightarrow>
                     (let post_format = dict_get fs (format_type config) dflt
                      in Inr (base_prompt @ prompt_gap @ post_format @ prompt_gap @
                              customer_story_note @ prompt_closing @ research_content))))"

text \<open>\<open>_create_revision_prompt\<close>.\<close>

definition create_revision_prompt :: "string \<Rightarrow> string \<Rightarrow> string" where
  "create_revision_prompt original_post feedback =
     revision_head @ original_post @ revision_mid @ feedback @ revision_tail"

section \<open>The external services and the console\<close>

text \<open>
  The two HTTP services are outside the program. A request is logged in the world and the
  reply is whatever the service gives for the calls made so far (the last one is the
  current request), so a service may answer the same request differently each time and
  may fail. Console output does not influence the control flow and is not modelled;
  \<open>input()\<close> reads the next line of \<open>stdin\<close> and raises \<open>EOFError\<close> when there is none.

  The world also holds what is left of the interpreter's call stack. CPython allows
  \<open>sys.getrecursionlimit()\<close> frames, 1000 unless changed, and the program does not change
  it. Only the restart nests calls without bound: each one leaves a frame of
  \<open>feedback_loop\<close> on the stack. \<open>stack_room\<close> is the number of calls of
  \<open>feedback_loop\<close> that can still be nested in the running one; how many that is at the
  start depends on the frames of the callers and of the deepest call chain of a session
  (into the client libraries), about 990.
\<close>

type_synonym message = "string \<times> string"

record chat_request =
  chat_model :: string
  chat_messages :: "message list"
  chat_stream :: bool

record messages_request =
  msg_model :: string
  msg_max_tokens :: nat
  msg_messages :: "message list"

text \<open>A call carries the API key of the client that makes it.\<close>

datatype call =
    ChatCompletionsCreate string chat_request
  | MessagesCreate string messages_request

text \<open>A streamed chunk and a complete response are given by their \<open>choices\<close>: for a chunk
  the \<open>delta.content\<close> of each choice (\<open>None\<close> when the delta has no text), for a response
  the \<open>message.content\<close> of each choice, a text as the annotation \<open>-> str\<close> of
  \<open>_get_complete_response\<close> has it. A message of the generation service is the list of
  the texts of its content blocks. An item of a stream is an error when the transport
  fails while the stream is read.\<close>

type_synonym chunk = "string option list"

type_synonym completion = "string list"

record services =
  stream_reply :: "call list \<Rightarrow> error + (error + chunk) list"
  completion_reply :: "call list \<Rightarrow> error + completion"
  messages_reply :: "call list \<Rightarrow> error + string list"

record world =
  stdin :: "string list"
  calls :: "call list"
  stack_room :: nat

definition py_input :: "world \<Rightarrow> (error + string) \<times> world" where
  "py_input w =
     (case stdin w of
        [] \<Rightarrow> (Inl EOFError, w)
      | l # ls \<Rightarrow> (Inr l, w\<lparr>stdin := ls\<rparr>))"

text \<open>\<open>str.lower\<close> on the ASCII letters. Bytes of other characters are left as they are;
  no such character lowers to an ASCII letter \<open>y\<close>, the only use made of the result.\<close>

definition lower :: "string \<Rightarrow> string" where
  "lower s =
     map (\<lambda>c. let n = (of_char c :: nat) in if 65 \<le> n \<and> n \<le> 90 then char_of (n + 32) else c) s"

text \<open>\<open>str.strip()\<close>: the whitespace characters of Python, as UTF-8 byte sequences
  (U+0009 to U+000D, U+001C to U+0020, U+0085, U+00A0, U+1680, U+2000 to U+200A, U+2028,
  U+2029, U+202F, U+205F, U+3000), taken off both ends.\<close>

definition whitespace :: "string list" where
  "whitespace =
     map (\<lambda>c. [c]) [CHR 0x09, CHR 0x0A, CHR 0x0B, CHR 0x0C, CHR 0x0D,
                    CHR 0x1C, CHR 0x1D, CHR 0x1E, CHR 0x1F, CHR 0x20] @
     [[CHR 0xC2, CHR 0x85], [CHR 0xC2, CHR 0xA0], [CHR 0xE1, CHR 0x9A, CHR 0x80]] @
     map (\<lambda>c. [CHR 0xE2, CHR 0x80, c])
       [CHR 0x80, CHR 0x81, CHR 0x82, CHR 0x83, CHR 0x84, CHR 0x85, CHR 0x86, CHR 0x87,
        CHR 0x88, CHR 0x89, CHR 0x8A, CHR 0xA8, CHR 0xA9, CHR 0xAF] @
     [[CHR 0xE2, CHR 0x81, CHR 0x9F], [CHR 0xE3, CHR 0x80, CHR 0x80]]"

function strip_prefixes :: "string list \<Rightarrow> string \<Rightarrow> string" where
  "strip_prefixes seqs s =
     (case find (\<lambda>p. p \<noteq> [] \<and> prefix p s) seqs of
        None \<Rightarrow> s
      | Some p \<Rightarrow> strip_prefixes seqs (drop (length p) s))"
  by pat_completeness auto
termination
proof (relation "measure (\<lambda>(seqs, s). length s)")
  show "wf (measure (\<lambda>(seqs, s). length s))" by simp
next
  fix seqs :: "string list" and s p :: string
  assume "find (\<lambda>p. p \<noteq> [] \<and> prefix p s) seqs = Some p"
  then have "p \<noteq> []" and "prefix p s"
    by (auto simp: find_Some_iff)
  then have "s \<noteq> []" and "0 < length p"
    by auto
  then show "((seqs, drop (length p) s), (seqs, s)) \<in> measure (\<lambda>(seqs, s). length s)"
    by simp
qed

definition strip :: "string \<Rightarrow> string" where
  "strip s = rev (strip_prefixes (map rev whitespace) (rev (strip_prefixes whitespace s)))"

section \<open>\<open>ClaudePostFormatter\<close>: the calls to the generation service\<close>

text \<open>\<open>self.anthropic.messages.create(...)\<close> followed by \<open>message.content[0].text.strip()\<close>,
  shared by \<open>format_post\<close> and \<open>revise_post\<close>.\<close>

definition messages_create :: "services \<Rightarrow> string \<Rightarrow> string \<Rightarrow> world \<Rightarrow> (error + string) \<times> world" where
  "messages_create svc api_key prompt w =
     (let request = \<lparr> msg_model = ''claude-3-5-sonnet-20241022'',
                       msg_max_tokens = 1000,
                       msg_messages = [(''user'', prompt)] \<rparr>;
          w' = w\<lparr>calls := calls w @ [MessagesCreate api_key request]\<rparr>
      in case messages_reply svc (calls w') of
           Inl e \<Rightarrow> (Inl e, w')
         | Inr content \<Rightarrow>
             (case content of
                [] \<Rightarrow> (Inl IndexError, w')
              | text # _ \<Rightarrow> (Inr (strip text), w')))"

definition format_post ::
  "services \<Rightarrow> string \<Rightarrow> string \<Rightarrow> PostConfig \<Rightarrow> world \<Rightarrow> (error + string) \<times> world" where
  "format_post svc api_key research_content config w =
     (case create_format_prompt research_content config of
        Inl e \<Rightarrow> (Inl e, w)
      | Inr prompt \<Rightarrow> messages_create svc api_key prompt w)"

definition revise_post ::
  "services \<Rightarrow> string \<Rightarrow> string \<Rightarrow> string \<Rightarrow> world \<Rightarrow> (error + string) \<times> world" where
  "revise_post svc api_key original_post feedback w =
     messages_create svc api_key (create_revision_prompt original_post feedback) w"

section \<open>\<open>PerplexityResearcher\<close>\<close>

definition create_prompt :: "string \<Rightarrow> message list" where
  "create_prompt tp =
     [(''system'',
       ''You are an artificial intelligence assistant that provides '' @
       ''detailed, factual research with statistics and sources.''),
      (''user'',
       ''Give me 5 interesting facts with stats about '' @ tp @ ''. '' @
       ''Include sources for any statistical claims. Focus on recent '' @
       ''and impactful data that would be engaging for a professional audience.'')]"

text \<open>The loop of \<open>_stream_response\<close> over the chunks, \<open>content\<close> being the list of the
  pieces appended so far. \<open>chunk.choices[0]\<close> raises \<open>IndexError\<close> on a chunk without
  choices.\<close>

fun collect_chunks :: "(error + chunk) list \<Rightarrow> string list \<Rightarrow> error + string list" where
  "collect_chunks [] content = Inr content"
| "collect_chunks (Inl e # rest) content = Inl e"
| "collect_chunks (Inr [] # rest) content = Inl IndexError"
| "collect_chunks (Inr (None # others) # rest) content = collect_chunks rest content"
| "collect_chunks (Inr (Some content_piece # others) # rest) content =
     collect_chunks rest (content @ [content_piece])"

definition stream_response ::
  "services \<Rightarrow> string \<Rightarrow> message list \<Rightarrow> world \<Rightarrow> (error + string) \<times> world" where
  "stream_response svc api_key messages w =
     (let request = \<lparr> chat_model = ''sonar-pro'', chat_messages = messages, chat_stream = True \<rparr>;
          w' = w\<lparr>calls := calls w @ [ChatCompletionsCreate api_key request]\<rparr>
      in case stream_reply svc (calls w') of
           Inl e \<Rightarrow> (Inl e, w')
         | Inr response_stream \<Rightarrow>
             (case collect_chunks response_stream [] of
                Inl e \<Rightarrow> (Inl e, w')
              | Inr content \<Rightarrow> (Inr (concat content), w')))"

definition get_complete_response ::
  "services \<Rightarrow> string \<Rightarrow> message list \<Rightarrow> world \<Rightarrow> (error + string) \<times> world" where
  "get_complete_response svc api_key messages w =
     (let request = \<lparr> chat_model = ''sonar-pro'', chat_messages = messages, chat_stream = False \<rparr>;
          w' = w\<lparr>calls := calls w @ [ChatCompletionsCreate api_key request]\<rparr>
      in case completion_reply svc (calls w') of
           Inl e \<Rightarrow> (Inl e, w')
         | Inr choices \<Rightarrow>
             (case choices of
                [] \<Rightarrow> (Inl IndexError, w')
              | content # _ \<Rightarrow> (Inr content, w')))"

definition get_research ::
  "services \<Rightarrow> string \<Rightarrow> string \<Rightarrow> bool \<Rightarrow> world \<Rightarrow> (error + string) \<times> world" where
  "get_research svc api_key tp stream w =
     (let messages = create_prompt tp
      in if stream then stream_response svc api_key messages w
         else get_complete_response svc api_key messages w)"

section \<open>\<open>LinkedInPostGenerator\<close>\<close>

text \<open>The generator holds its two clients, each given by its API key.
  \<open>load_dotenv()\<close> adds the variables of the \<open>.env\<close> file that the process environment
  does not already have. The test \<open>not key\<close> holds for a missing variable and for an
  empty one.\<close>

record LinkedInPostGenerator =
  researcher :: string
  formatter :: string

definition load_dotenv :: "(string \<rightharpoonup> string) \<Rightarrow> (string \<rightharpoonup> string) \<Rightarrow> (string \<rightharpoonup> string)" where
  "load_dotenv dotenv environ = (\<lambda>k. case environ k of Some v \<Rightarrow> Some v | None \<Rightarrow> dotenv k)"

definition LinkedInPostGenerator_init ::
  "(string \<rightharpoonup> string) \<Rightarrow> (string \<rightharpoonup> string) \<Rightarrow> error + LinkedInPostGenerator" where
  "LinkedInPostGenerator_init dotenv environ =
     (let env = load_dotenv dotenv environ
      in case env ''PERPLEXITY_API_KEY'' of
           None \<Rightarrow> Inl (ValueError ''PERPLEXITY_API_KEY not found in environment variables'')
         | Some perplexity_key \<Rightarrow>
             if perplexity_key = [] then
               Inl (ValueError ''PERPLEXITY_API_KEY not found in environment variables'')
             else
               (case env ''ANTHROPIC_API_KEY'' of
                  None \<Rightarrow> Inl (ValueError ''ANTHROPIC_API_KEY not found in environment variables'')
                | Some anthropic_key \<Rightarrow>
                    if anthropic_key = [] then
                      Inl (ValueError ''ANTHROPIC_API_KEY not found in environment variables'')
                    else Inr \<lparr> researcher = perplexity_key, formatter = anthropic_key \<rparr>))"

text \<open>The loop \<open>while choice not in valid: choice = input(...)\<close>, started with a choice
  that is not valid: it reads lines until one is valid.\<close>

fun read_choice :: "string list \<Rightarrow> string list \<Rightarrow> (error + string) \<times> string list" where
  "read_choice valid [] = (Inl EOFError, [])"
| "read_choice valid (l # ls) = (if l \<in> set valid then (Inr l, ls) else read_choice valid ls)"

definition ask_until :: "string list \<Rightarrow> world \<Rightarrow> (error + string) \<times> world" where
  "ask_until valid w = (case read_choice valid (stdin w) of (r, rest) \<Rightarrow> (r, w\<lparr>stdin := rest\<rparr>))"

definition format_map :: "string \<rightharpoonup> PostFormat" where
  "format_map =
     [''1'' \<mapsto> FACTS_WITH_EMOJI, ''2'' \<mapsto> STORY_BASED, ''3'' \<mapsto> GUIDE_BASED,
      ''4'' \<mapsto> INDUSTRY_INSIGHT]"

definition length_map :: "string \<rightharpoonup> string" where
  "length_map = [''1'' \<mapsto> ''short'', ''2'' \<mapsto> ''medium'', ''3'' \<mapsto> ''long'']"

text \<open>The customer-story question, asked only after the choice \<open>"2"\<close>.\<close>

definition ask_customer_story :: "string \<Rightarrow> world \<Rightarrow> (error + bool) \<times> world" where
  "ask_customer_story format_choice w =
     (if format_choice = ''2''
      then (case py_input w of
              (Inl e, w') \<Rightarrow> (Inl e, w')
            | (Inr answer, w') \<Rightarrow> (let customer_choice = lower answer in (Inr (customer_choice = ''y''), w')))
      else (Inr False, w))"

definition get_user_preferences :: "world \<Rightarrow> (error + PostConfig) \<times> world" where
  "get_user_preferences w =
     (case py_input w of
        (Inl e, w1) \<Rightarrow> (Inl e, w1)
      | (Inr tp, w1) \<Rightarrow>
     (case ask_until [''1'', ''2'', ''3'', ''4''] w1 of
        (Inl e, w2) \<Rightarrow> (Inl e, w2)
      | (Inr format_choice, w2) \<Rightarrow>
     (case ask_customer_story format_choice w2 of
        (Inl e, w3) \<Rightarrow> (Inl e, w3)
      | (Inr customer_story, w3) \<Rightarrow>
     (case ask_until [''1'', ''2'', ''3''] w3 of
        (Inl e, w4) \<Rightarrow> (Inl e, w4)
      | (Inr length_choice, w4) \<Rightarrow>
     (case getitem format_map format_choice of
        Inl e \<Rightarrow> (Inl e, w4)
      | Inr fmt \<Rightarrow>
     (case getitem length_map length_choice of
        Inl e \<Rightarrow> (Inl e, w4)
      | Inr len \<Rightarrow>
          (Inr (PostConfig_init (Member fmt) tp (Some len) (Some customer_story)), w4)))))))"

definition generate_post ::
  "services \<Rightarrow> LinkedInPostGenerator \<Rightarrow> PostConfig option \<Rightarrow> world \<Rightarrow> (error + string) \<times> world" where
  "generate_post svc self config_arg w =
     (case (case config_arg of None \<Rightarrow> get_user_preferences w | Some c \<Rightarrow> (Inr c, w)) of
        (Inl e, w1) \<Rightarrow> (Inl e, w1)
      | (Inr config, w1) \<Rightarrow>
          (case get_research svc (researcher self) (topic config) True w1 of
             (Inl e, w2) \<Rightarrow> (Inl e, w2)
           | (Inr research_content, w2) \<Rightarrow>
               format_post svc (formatter self) research_content config w2))"

section \<open>Occurrences of a text in a prompt\<close>

text \<open>
  A text \<open>t\<close> occurs in a prompt \<open>p\<close> when \<^term>\<open>sublist t p\<close>. A piece of a prompt is
  \<open>sealed\<close> against a marker when the marker does not occur in it and neither its first nor
  its last character is one of the marker's: an occurrence of the marker can then not
  straddle one of its ends.
\<close>

definition sealed :: "string \<Rightarrow> string \<Rightarrow> bool" where
  "sealed m xs = (\<not> sublist m xs \<and> xs \<noteq> [] \<and> hd xs \<notin> set m \<and> last xs \<notin> set m)"

section \<open>The text fragments of a stream, and an example of the services\<close>

text \<open>The text fragments of a stream in the words of the specification: the texts that
  the chunks deliver, in the order of arrival. A chunk whose first choice has no text
  delivers none.\<close>

definition text_fragments :: "chunk list \<Rightarrow> string list" where
  "text_fragments chunks = concat (map (\<lambda>c. case c of Some s # _ \<Rightarrow> [s] | _ \<Rightarrow> []) chunks)"

text \<open>Services on which the operations can be run: the research arrives in two pieces
  around a chunk without text, and the generation service answers its \<open>n\<close>-th request of
  the session with \<open>n\<close> stars and the word \<open>post\<close>, padded with blanks.\<close>

definition demo_services :: services where
  "demo_services =
     \<lparr> stream_reply = (\<lambda>cs. Inr [Inr [Some ''EV sales ''], Inr [None], Inr [Some ''doubled.'']]),
       completion_reply = (\<lambda>cs. Inr [''EV sales doubled.'']),
       messages_reply = (\<lambda>cs. Inr [''  '' @ replicate (length cs) (CHR ''*'') @ '' post\<newline>'']) \<rparr>"

definition demo_generator :: LinkedInPostGenerator where
  "demo_generator = \<lparr> researcher = ''pk'', formatter = ''ak'' \<rparr>"

definition demo_config :: PostConfig where
  "demo_config =
     \<lparr> format_type = Member GUIDE_BASED, topic = ''heat pumps'', length_field = ''short'',
       is_customer_story = False \<rparr>"

section \<open>What the operations do to the console input\<close>

lemma py_input_stdin:
  "py_input w = (r, w') \<Longrightarrow> length (stdin w') \<le> length (stdin w)"
  by (auto simp: py_input_def split: list.splits)

lemma py_input_consumes:
  "py_input w = (Inr l, w') \<Longrightarrow> length (stdin w') < length (stdin w)"
  by (auto simp: py_input_def split: list.splits)

lemma py_input_calls:
  "py_input w = (r, w') \<Longrightarrow> calls w' = calls w"
  by (auto simp: py_input_def split: list.splits)

lemma read_choice_length:
  "read_choice valid ls = (r, rest) \<Longrightarrow> length rest \<le> length ls"
proof (induction ls)
  case Nil
  then show ?case by simp
next
  case (Cons l ls)
  then show ?case by (auto split: if_splits)
qed

lemma ask_until_stdin:
  "ask_until valid w = (r, w') \<Longrightarrow> length (stdin w') \<le> length (stdin w)"
  by (auto simp: ask_until_def split: prod.splits dest: read_choice_length)

lemma ask_customer_story_stdin:
  "ask_customer_story c w = (r, w') \<Longrightarrow> length (stdin w') \<le> length (stdin w)"
  by (auto simp: ask_customer_story_def Let_def split: if_splits prod.splits sum.splits
      dest: py_input_stdin)

lemma get_user_preferences_stdin:
  assumes "get_user_preferences w = (r, w')"
  shows "length (stdin w') \<le> length (stdin w)"
proof -
  obtain r1 w1 where 1: "py_input w = (r1, w1)" by (cases "py_input w")
  obtain r2 w2 where 2: "ask_until [''1'', ''2'', ''3'', ''4''] w1 = (r2, w2)"
    by (cases "ask_until [''1'', ''2'', ''3'', ''4''] w1")
  obtain r3 w3 where 3: "ask_customer_story (projr r2) w2 = (r3, w3)"
    by (cases "ask_customer_story (projr r2) w2")
  obtain r4 w4 where 4: "ask_until [''1'', ''2'', ''3''] w3 = (r4, w4)"
    by (cases "ask_until [''1'', ''2'', ''3''] w3")
  have le1: "length (stdin w1) \<le> length (stdin w)" using 1 by (rule py_input_stdin)
  have le2: "length (stdin w2) \<le> length (stdin w1)" using 2 by (rule ask_until_stdin)
  have le3: "length (stdin w3) \<le> length (stdin w2)" using 3 by (rule ask_customer_story_stdin)
  have le4: "length (stdin w4) \<le> length (stdin w3)" using 4 by (rule ask_until_stdin)
  have "w' \<in> {w1, w2, w3, w4}"
    using assms 1 2 3 4
    by (auto simp: get_user_preferences_def split: sum.splits)
  then show ?thesis
    using le1 le2 le3 le4 by auto
qed

lemma messages_create_stdin:
  "messages_create svc k p w = (r, w') \<Longrightarrow> stdin w' = stdin w"
  by (auto simp: messages_create_def Let_def split: sum.splits list.splits)

lemma revise_post_stdin:
  "revise_post svc k p f w = (r, w') \<Longrightarrow> stdin w' = stdin w"
  by (auto simp: revise_post_def dest: messages_create_stdin)

lemma format_post_stdin:
  "format_post svc k rc c w = (r, w') \<Longrightarrow> stdin w' = stdin w"
  by (auto simp: format_post_def split: sum.splits dest: messages_create_stdin)

lemma get_research_stdin:
  "get_research svc k tp s w = (r, w') \<Longrightarrow> stdin w' = stdin w"
  by (auto simp: get_research_def stream_response_def get_complete_response_def Let_def
      split: if_splits sum.splits list.splits)

lemma generate_post_stdin:
  "generate_post svc self (Some c) w = (r, w') \<Longrightarrow> stdin w' = stdin w"
  by (auto simp: generate_post_def split: prod.splits sum.splits
      dest!: get_research_stdin format_post_stdin)

text \<open>
  \<open>feedback_loop\<close>: the first session and the \<open>while True\<close> loop that follows it.
  \<open>review_loop\<close> is the loop, with the local variables \<open>config\<close> and \<open>initial_post\<close> as
  arguments. Every iteration reads a line, so the loop ends at the latest when the input
  does. The restart is the recursive call \<open>return self.feedback_loop()\<close> of the source:
  it raises \<open>RecursionError\<close> when the stack has no room for another nested call, and
  otherwise runs the new session one frame deeper; the frame is given back when the call
  returns.
\<close>

function feedback_loop ::
    "services \<Rightarrow> LinkedInPostGenerator \<Rightarrow> world \<Rightarrow> (error + string) \<times> world"
  and review_loop ::
    "services \<Rightarrow> LinkedInPostGenerator \<Rightarrow> PostConfig \<Rightarrow> string \<Rightarrow> world \<Rightarrow> (error + string) \<times> world"
where
  "feedback_loop svc self w =
     (case get_user_preferences w of
        (Inl e, w1) \<Rightarrow> (Inl e, w1)
      | (Inr config, w1) \<Rightarrow>
          (case generate_post svc self (Some config) w1 of
             (Inl e, w2) \<Rightarrow> (Inl e, w2)
           | (Inr initial_post, w2) \<Rightarrow> review_loop svc self config initial_post w2))"
| "review_loop svc self config initial_post w =
     (case py_input w of
        (Inl e, w1) \<Rightarrow> (Inl e, w1)
      | (Inr choice, w1) \<Rightarrow>
          if choice = ''1'' then
            (case py_input w1 of
               (Inl e, w2) \<Rightarrow> (Inl e, w2)
             | (Inr feedback, w2) \<Rightarrow>
                 (case revise_post svc (formatter self) initial_post feedback w2 of
                    (Inl e, w3) \<Rightarrow> (Inl e, w3)
                  | (Inr revised_post, w3) \<Rightarrow> review_loop svc self config revised_post w3))
          else if choice = ''2'' then (Inr initial_post, w1)
          else if choice = ''3'' then
            (case stack_room w1 of
               0 \<Rightarrow> (Inl RecursionError, w1)
             | Suc room \<Rightarrow>
                 (case feedback_loop svc self (w1\<lparr>stack_room := room\<rparr>) of
                    (result, w2) \<Rightarrow> (result, w2\<lparr>stack_room := Suc room\<rparr>)))
          else review_loop svc self config initial_post w1)"
  by pat_completeness auto

termination
proof (relation "measure (\<lambda>x. case x of
          Inl (svc, self, w) \<Rightarrow> 2 * length (stdin w) + 1
        | Inr (svc, self, config, post, w) \<Rightarrow> 2 * length (stdin w))", goal_cases)
  case 1
  show ?case by simp
next
  case (2 svc self w x y b xa ya ba)
  from 2(1) have "length (stdin y) \<le> length (stdin w)"
    by (metis get_user_preferences_stdin)
  moreover from 2(3) have "stdin ya = stdin y"
    by (metis generate_post_stdin)
  ultimately show ?case by simp
next
  case (3 svc self config initial_post w x y b xa ya ba xb yb bb)
  from 3(1,2) have "length (stdin y) < length (stdin w)"
    by (metis py_input_consumes)
  moreover from 3(4) have "length (stdin ya) \<le> length (stdin y)"
    by (metis py_input_stdin)
  moreover from 3(6) have "stdin yb = stdin ya"
    by (metis revise_post_stdin)
  ultimately show ?case by simp
next
  case (4 svc self config initial_post w x y b)
  from 4(1,2) have "length (stdin y) < length (stdin w)"
    by (metis py_input_consumes)
  then show ?case by simp
next
  case (5 svc self config initial_post w x y b)
  from 5(1,2) have "length (stdin y) < length (stdin w)"
    by (metis py_input_consumes)
  then show ?case by simp
qed

text \<open>The two equations are unfolded where a proof asks for it.\<close>

declare feedback_loop.simps [simp del] review_loop.simps [simp del]

section \<open>The prompt that \<open>_create_format_prompt\<close> builds\<close>

lemma length_guide_cases:
  "length_guide l = Some g \<longleftrightarrow>
     l = ''short'' \<and> g = ''Keep the post concise, around 150-200 words.'' \<or>
     l = ''medium'' \<and> g = ''Aim for around 250-300 words total.'' \<or>
     l = ''long'' \<and> g = ''Create a more detailed post of around 350-450 words.''"
  by (auto simp: length_guide_def)

lemma length_guide_None:
  "length_guide l = None \<longleftrightarrow> l \<notin> {''short'', ''medium'', ''long''}"
  by (auto simp: length_guide_def)

lemma formats_valid:
  assumes "length_guide (length_field c) = Some g"
  shows "formats c =
     Inr [FACTS_WITH_EMOJI \<mapsto> facts_with_emoji_head @ g @ template_tail,
          STORY_BASED \<mapsto> story_based_head @ g @ template_tail,
          GUIDE_BASED \<mapsto> guide_based_head @ g @ template_tail,
          INDUSTRY_INSIGHT \<mapsto>
            industry_insight_head @ topic c @ industry_insight_mid @ g @ template_tail]"
  using assms by (simp add: formats_def getitem_def)

lemma formats_invalid:
  assumes "length_guide (length_field c) = None"
  shows "formats c = Inl (KeyError (length_field c))"
  using assms by (simp add: formats_def getitem_def)

text \<open>With a length of the table the prompt is the base sentence, the template of the
  format (the facts template for a value that is no member), the note, the closing
  instructions and the research.\<close>

lemma create_format_prompt_valid:
  assumes "length_guide (length_field c) = Some g"
  shows "create_format_prompt r c =
     Inr (''Format this research about '' @ topic c @ '' into a LinkedIn post.'' @ prompt_gap @
          (case format_type c of
             Member STORY_BASED \<Rightarrow> story_based_head @ g @ template_tail
           | Member GUIDE_BASED \<Rightarrow> guide_based_head @ g @ template_tail
           | Member INDUSTRY_INSIGHT \<Rightarrow>
               industry_insight_head @ topic c @ industry_insight_mid @ g @ template_tail
           | _ \<Rightarrow> facts_with_emoji_head @ g @ template_tail) @
          prompt_gap @ (if is_customer_story c then customer_story_text else []) @
          prompt_closing @ r)"
  unfolding create_format_prompt_def formats_valid [OF assms] Let_def dict_get_def
  by (simp split: format_value.splits PostFormat.splits)

lemma create_format_prompt_invalid:
  assumes "length_guide (length_field c) = None"
  shows "create_format_prompt r c = Inl (KeyError (length_field c))"
  unfolding create_format_prompt_def formats_invalid [OF assms] by simp

lemma template_has_guide:
  "sublist g
     (case ft of
        Member STORY_BASED \<Rightarrow> story_based_head @ g @ template_tail
      | Member GUIDE_BASED \<Rightarrow> guide_based_head @ g @ template_tail
      | Member INDUSTRY_INSIGHT \<Rightarrow>
          industry_insight_head @ tp @ industry_insight_mid @ g @ template_tail
      | _ \<Rightarrow> facts_with_emoji_head @ g @ template_tail)"
proof -
  have "sublist g ((industry_insight_head @ tp @ industry_insight_mid) @ g @ template_tail)"
    by (rule sublist_appendI)
  then show ?thesis
    by (simp split: format_value.splits PostFormat.splits)
qed

lemma sublist_transitive: "sublist a b \<Longrightarrow> sublist b c \<Longrightarrow> sublist a c"
  by (rule sublist_order.order_trans)

lemma sublist_in_middle: "sublist a b \<Longrightarrow> sublist a (xs @ b @ ys)"
  by (rule sublist_transitive [OF _ sublist_appendI])

lemma word_count_in_guide:
  "sublist ''150-200 words'' ''Keep the post concise, around 150-200 words.''"
  "sublist ''250-300 words'' ''Aim for around 250-300 words total.''"
  "sublist ''350-450 words'' ''Create a more detailed post of around 350-450 words.''"
  by code_simp+

subsection \<open>Where the marker \<open>Since\<close> cannot occur\<close>

lemma no_overlap_left:
  assumes "\<not> sublist m xs" and "\<not> sublist m ys" and "xs \<noteq> []" and "last xs \<notin> set m"
  shows "\<not> sublist m (xs @ ys)"
proof
  assume "sublist m (xs @ ys)"
  with assms(1,2) obtain m1 m2 where m: "m = m1 @ m2" and s: "suffix m1 xs" and p: "prefix m2 ys"
    by (auto simp: sublist_append)
  show False
  proof (cases "m1 = []")
    case True
    with m p assms(2) show False by auto
  next
    case False
    from s obtain zs where "xs = zs @ m1" by (auto simp: suffix_def)
    with False have "last xs = last m1" by simp
    with False m assms(4) show False by auto
  qed
qed

lemma no_overlap_right:
  assumes "\<not> sublist m xs" and "\<not> sublist m ys" and "ys \<noteq> []" and "hd ys \<notin> set m"
  shows "\<not> sublist m (xs @ ys)"
proof
  assume "sublist m (xs @ ys)"
  with assms(1,2) obtain m1 m2 where m: "m = m1 @ m2" and s: "suffix m1 xs" and p: "prefix m2 ys"
    by (auto simp: sublist_append)
  show False
  proof (cases "m2 = []")
    case True
    with m s assms(1) show False by auto
  next
    case False
    from p obtain zs where "ys = m2 @ zs" by (auto simp: prefix_def)
    with False have "hd ys = hd m2" by simp
    with False m assms(4) show False by auto
  qed
qed

lemma sealed_then:
  "sealed m k \<Longrightarrow> \<not> sublist m rest \<Longrightarrow> \<not> sublist m (k @ rest)"
  unfolding sealed_def by (rule no_overlap_left) auto

lemma var_then_sealed:
  assumes "\<not> sublist m v" and "sealed m k" and "\<not> sublist m (k @ rest)"
  shows "\<not> sublist m (v @ k @ rest)"
proof (rule no_overlap_right)
  show "\<not> sublist m v" by fact
  show "\<not> sublist m (k @ rest)" by fact
  from assms(2) show "k @ rest \<noteq> []" by (simp add: sealed_def)
  from assms(2) show "hd (k @ rest) \<notin> set m" by (simp add: sealed_def)
qed

lemma sealed_consts:
  "sealed ''Since'' ''Format this research about ''"
  "sealed ''Since'' '' into a LinkedIn post.''"
  "sealed ''Since'' prompt_gap"
  "sealed ''Since'' prompt_closing"
  "sealed ''Since'' template_tail"
  "sealed ''Since'' facts_with_emoji_head"
  "sealed ''Since'' story_based_head"
  "sealed ''Since'' guide_based_head"
  "sealed ''Since'' industry_insight_head"
  "sealed ''Since'' industry_insight_mid"
  by code_simp+

lemma sealed_guides:
  "sealed ''Since'' ''Keep the post concise, around 150-200 words.''"
  "sealed ''Since'' ''Aim for around 250-300 words total.''"
  "sealed ''Since'' ''Create a more detailed post of around 350-450 words.''"
  by code_simp+

lemma guide_sealed: "length_guide l = Some g \<Longrightarrow> sealed ''Since'' g"
  by (auto simp: length_guide_cases sealed_guides)

lemma template_clean:
  assumes g: "sealed ''Since'' g"
    and t: "\<not> sublist ''Since'' tp"
    and rest: "\<not> sublist ''Since'' rest"
  shows "\<not> sublist ''Since''
     ((case ft of
         Member STORY_BASED \<Rightarrow> story_based_head @ g @ template_tail
       | Member GUIDE_BASED \<Rightarrow> guide_based_head @ g @ template_tail
       | Member INDUSTRY_INSIGHT \<Rightarrow>
           industry_insight_head @ tp @ industry_insight_mid @ g @ template_tail
       | _ \<Rightarrow> facts_with_emoji_head @ g @ template_tail) @ rest)"
proof -
  have tail: "\<not> sublist ''Since'' (g @ template_tail @ rest)"
    by (intro sealed_then g sealed_consts rest)
  have facts: "\<not> sublist ''Since'' (facts_with_emoji_head @ g @ template_tail @ rest)"
    by (rule sealed_then [OF sealed_consts(6) tail])
  have story: "\<not> sublist ''Since'' (story_based_head @ g @ template_tail @ rest)"
    by (rule sealed_then [OF sealed_consts(7) tail])
  have guide: "\<not> sublist ''Since'' (guide_based_head @ g @ template_tail @ rest)"
    by (rule sealed_then [OF sealed_consts(8) tail])
  have "\<not> sublist ''Since'' (industry_insight_mid @ g @ template_tail @ rest)"
    by (rule sealed_then [OF sealed_consts(10) tail])
  then have "\<not> sublist ''Since'' (tp @ industry_insight_mid @ g @ template_tail @ rest)"
    by (rule var_then_sealed [OF t sealed_consts(10)])
  then have industry: "\<not> sublist ''Since''
      (industry_insight_head @ tp @ industry_insight_mid @ g @ template_tail @ rest)"
    by (rule sealed_then [OF sealed_consts(9)])
  show ?thesis
  proof (cases ft)
    case (Member f)
    then show ?thesis
      using facts story guide industry by (cases f) simp_all
  next
    case (PyStr s)
    then show ?thesis using facts by simp
  next
    case PyNone
    then show ?thesis using facts by simp
  qed
qed

lemma prompt_without_note_clean:
  assumes g: "length_guide (length_field c) = Some g"
    and flag: "\<not> is_customer_story c"
    and t: "\<not> sublist ''Since'' (topic c)"
    and r: "\<not> sublist ''Since'' r"
    and p: "create_format_prompt r c = Inr p"
  shows "\<not> sublist ''Since'' p"
proof -
  let ?template = "case format_type c of
         Member STORY_BASED \<Rightarrow> story_based_head @ g @ template_tail
       | Member GUIDE_BASED \<Rightarrow> guide_based_head @ g @ template_tail
       | Member INDUSTRY_INSIGHT \<Rightarrow>
           industry_insight_head @ topic c @ industry_insight_mid @ g @ template_tail
       | _ \<Rightarrow> facts_with_emoji_head @ g @ template_tail"
  have "\<not> sublist ''Since'' (prompt_closing @ r)"
    by (rule sealed_then [OF sealed_consts(4) r])
  then have "\<not> sublist ''Since'' (prompt_gap @ prompt_closing @ r)"
    by (rule sealed_then [OF sealed_consts(3)])
  then have "\<not> sublist ''Since'' (?template @ prompt_gap @ prompt_closing @ r)"
    by (rule template_clean [OF guide_sealed [OF g] t])
  then have "\<not> sublist ''Since'' (prompt_gap @ ?template @ prompt_gap @ prompt_closing @ r)"
    by (rule sealed_then [OF sealed_consts(3)])
  then have "\<not> sublist ''Since''
      ('' into a LinkedIn post.'' @ prompt_gap @ ?template @ prompt_gap @ prompt_closing @ r)"
    by (rule sealed_then [OF sealed_consts(2)])
  then have "\<not> sublist ''Since''
      (topic c @ '' into a LinkedIn post.'' @ prompt_gap @ ?template @ prompt_gap @
       prompt_closing @ r)"
    by (rule var_then_sealed [OF t sealed_consts(2)])
  then have "\<not> sublist ''Since''
      (''Format this research about '' @ topic c @ '' into a LinkedIn post.'' @ prompt_gap @
       ?template @ prompt_gap @ prompt_closing @ r)"
    by (rule sealed_then [OF sealed_consts(1)])
  moreover have "p = ''Format this research about '' @ topic c @ '' into a LinkedIn post.'' @
       prompt_gap @ ?template @ prompt_gap @ prompt_closing @ r"
    using p flag unfolding create_format_prompt_valid [OF g] by simp
  ultimately show ?thesis by simp
qed

lemma note_mentions_Since: "sublist ''Since'' customer_story_text"
  by code_simp

section \<open>Claims about the prompt\<close>

text \<open>
  C1, as the code has it. The customer-story note is governed by \<open>is_customer_story\<close>
  alone: for a length of the table the instruction contains the note whenever the flag is
  set, whatever the format; when the flag is not set, and neither the topic nor the
  research brings the word \<open>Since\<close> with which the note opens, the instruction does not
  contain the note.
\<close>

theorem customer_story_note_follows_flag:
  assumes "length_field config \<in> {''short'', ''medium'', ''long''}"
  shows "\<exists>p. create_format_prompt research config = Inr p \<and>
           (is_customer_story config \<longrightarrow> sublist customer_story_text p) \<and>
           (\<not> is_customer_story config \<and> \<not> sublist ''Since'' (topic config) \<and>
              \<not> sublist ''Since'' research \<longrightarrow> \<not> sublist customer_story_text p)"
proof -
  from assms obtain g where g: "length_guide (length_field config) = Some g"
    using length_guide_None [of "length_field config"] by (cases "length_guide (length_field config)") auto
  let ?p = "''Format this research about '' @ topic config @ '' into a LinkedIn post.'' @
      prompt_gap @
      (case format_type config of
         Member STORY_BASED \<Rightarrow> story_based_head @ g @ template_tail
       | Member GUIDE_BASED \<Rightarrow> guide_based_head @ g @ template_tail
       | Member INDUSTRY_INSIGHT \<Rightarrow>
           industry_insight_head @ topic config @ industry_insight_mid @ g @ template_tail
       | _ \<Rightarrow> facts_with_emoji_head @ g @ template_tail) @
      prompt_gap @ (if is_customer_story config then customer_story_text else []) @
      prompt_closing @ research"
  have p: "create_format_prompt research config = Inr ?p"
    by (rule create_format_prompt_valid [OF g])
  have present: "sublist customer_story_text ?p" if "is_customer_story config"
  proof -
    have "sublist customer_story_text
        ((''Format this research about '' @ topic config @ '' into a LinkedIn post.'' @
          prompt_gap @
          (case format_type config of
             Member STORY_BASED \<Rightarrow> story_based_head @ g @ template_tail
           | Member GUIDE_BASED \<Rightarrow> guide_based_head @ g @ template_tail
           | Member INDUSTRY_INSIGHT \<Rightarrow>
               industry_insight_head @ topic config @ industry_insight_mid @ g @ template_tail
           | _ \<Rightarrow> facts_with_emoji_head @ g @ template_tail) @
          prompt_gap) @ customer_story_text @ (prompt_closing @ research))"
      by (rule sublist_appendI)
    then show ?thesis
      using that by (simp only: append_assoc if_True)
  qed
  have absent: "\<not> sublist customer_story_text ?p"
    if "\<not> is_customer_story config" and "\<not> sublist ''Since'' (topic config)"
      and "\<not> sublist ''Since'' research"
  proof
    assume "sublist customer_story_text ?p"
    with note_mentions_Since have "sublist ''Since'' ?p"
      by (rule sublist_transitive)
    moreover have "\<not> sublist ''Since'' ?p"
      by (rule prompt_without_note_clean [OF g that p])
    ultimately show False by contradiction
  qed
  from p present absent show ?thesis by blast
qed

theorem customer_story_note_follows_flag_witness:
  "(\<exists>p. create_format_prompt ''Sales grew.''
          \<lparr>format_type = Member GUIDE_BASED, topic = ''electric vehicles'',
           length_field = ''long'', is_customer_story = True\<rparr> = Inr p \<and>
        sublist customer_story_text p) \<and>
   (\<exists>p. create_format_prompt ''Sales grew.''
          \<lparr>format_type = Member STORY_BASED, topic = ''electric vehicles'',
           length_field = ''short'', is_customer_story = False\<rparr> = Inr p \<and>
        \<not> sublist customer_story_text p)"
proof -
  have t: "\<not> sublist ''Since'' ''electric vehicles''" and r: "\<not> sublist ''Since'' ''Sales grew.''"
    by code_simp+
  show ?thesis
    using
      customer_story_note_follows_flag [of
        "\<lparr>format_type = Member GUIDE_BASED, topic = ''electric vehicles'',
          length_field = ''long'', is_customer_story = True\<rparr>" "''Sales grew.''"]
      customer_story_note_follows_flag [of
        "\<lparr>format_type = Member STORY_BASED, topic = ''electric vehicles'',
          length_field = ''short'', is_customer_story = False\<rparr>" "''Sales grew.''"]
      t r
    by simp
qed

text \<open>
  C1 as stated fails: with the facts format and \<open>is_customer_story\<close> set, the instruction
  contains the note although the format is not the story-based one.
\<close>

theorem customer_story_note_in_facts_prompt:
  "(\<exists>p. create_format_prompt ''Sales grew.''
          \<lparr>format_type = Member FACTS_WITH_EMOJI, topic = ''electric vehicles'',
           length_field = ''medium'', is_customer_story = True\<rparr> = Inr p \<and>
        sublist customer_story_text p) \<and>
   is_customer_story
     \<lparr>format_type = Member FACTS_WITH_EMOJI, topic = ''electric vehicles'',
      length_field = ''medium'', is_customer_story = True\<rparr> \<and>
   format_type
     \<lparr>format_type = Member FACTS_WITH_EMOJI, topic = ''electric vehicles'',
      length_field = ''medium'', is_customer_story = True\<rparr> \<noteq> Member STORY_BASED"
proof -
  have g: "length_guide (length_field
      \<lparr>format_type = Member FACTS_WITH_EMOJI, topic = ''electric vehicles'',
       length_field = ''medium'', is_customer_story = True\<rparr>) =
      Some ''Aim for around 250-300 words total.''"
    by (simp add: length_guide_def)
  have "sublist customer_story_text
      ((''Format this research about '' @ ''electric vehicles'' @ '' into a LinkedIn post.'' @
        prompt_gap @ (facts_with_emoji_head @ ''Aim for around 250-300 words total.'' @
        template_tail) @ prompt_gap) @ customer_story_text @ (prompt_closing @ ''Sales grew.''))"
    by (rule sublist_appendI)
  then have "sublist customer_story_text
      (''Format this research about '' @ ''electric vehicles'' @ '' into a LinkedIn post.'' @
        prompt_gap @ (facts_with_emoji_head @ ''Aim for around 250-300 words total.'' @
        template_tail) @ prompt_gap @ customer_story_text @ prompt_closing @ ''Sales grew.'')"
    by (simp only: append_assoc)
  then show ?thesis
    unfolding create_format_prompt_valid [OF g] by simp
qed

text \<open>
  C2. For a length of the table and any format (a member or not), the instruction is
  built and contains the topic and the word count of the length: 150-200 words for
  short, 250-300 for medium, 350-450 for long. For the topic electric vehicles, the
  facts format and the short length it contains the topic, 150-200 words and the
  template with its five keycap-numbered points.
\<close>

theorem prompt_has_topic_and_word_count:
  "(length_field config \<in> {''short'', ''medium'', ''long''} \<longrightarrow>
      (\<exists>p. create_format_prompt research config = Inr p \<and>
           sublist (topic config) p \<and>
           sublist (if length_field config = ''short'' then ''150-200 words''
                    else if length_field config = ''medium'' then ''250-300 words''
                    else ''350-450 words'') p)) \<and>
   (\<exists>p. create_format_prompt research
          \<lparr>format_type = Member FACTS_WITH_EMOJI, topic = ''electric vehicles'',
           length_field = ''short'', is_customer_story = False\<rparr> = Inr p \<and>
        sublist ''electric vehicles'' p \<and>
        sublist ''150-200 words'' p \<and>
        sublist (''1'' @ keycap @ '' [Point 1]\<newline>'' @
                 ''            2'' @ keycap @ '' [Point 2]\<newline>'' @
                 ''            3'' @ keycap @ '' [Point 3]\<newline>'' @
                 ''            4'' @ keycap @ '' [Point 4]\<newline>'' @
                 ''            5'' @ keycap @ '' [Point 5]\<newline>'') p \<and>
        sublist (facts_with_emoji_head @ ''Keep the post concise, around 150-200 words.'' @
                 template_tail) p)"
proof (intro conjI impI)
  assume valid: "length_field config \<in> {''short'', ''medium'', ''long''}"
  then obtain g where g: "length_guide (length_field config) = Some g"
    using length_guide_None [of "length_field config"]
    by (cases "length_guide (length_field config)") auto
  let ?words = "if length_field config = ''short'' then ''150-200 words''
                else if length_field config = ''medium'' then ''250-300 words''
                else ''350-450 words''"
  let ?template = "case format_type config of
         Member STORY_BASED \<Rightarrow> story_based_head @ g @ template_tail
       | Member GUIDE_BASED \<Rightarrow> guide_based_head @ g @ template_tail
       | Member INDUSTRY_INSIGHT \<Rightarrow>
           industry_insight_head @ topic config @ industry_insight_mid @ g @ template_tail
       | _ \<Rightarrow> facts_with_emoji_head @ g @ template_tail"
  let ?p = "''Format this research about '' @ topic config @ '' into a LinkedIn post.'' @
      prompt_gap @ ?template @
      prompt_gap @ (if is_customer_story config then customer_story_text else []) @
      prompt_closing @ research"
  have p: "create_format_prompt research config = Inr ?p"
    by (rule create_format_prompt_valid [OF g])
  have tp: "sublist (topic config) ?p"
    by (rule sublist_appendI)
  have "sublist ?words g"
    using g by (auto simp: length_guide_cases word_count_in_guide)
  then have "sublist ?words ?template"
    by (rule sublist_transitive [OF _ template_has_guide])
  then have "sublist ?words
      ((''Format this research about '' @ topic config @ '' into a LinkedIn post.'' @ prompt_gap) @
       ?template @
       (prompt_gap @ (if is_customer_story config then customer_story_text else []) @
        prompt_closing @ research))"
    by (rule sublist_in_middle)
  then have "sublist ?words ?p"
    by (simp only: append_assoc)
  with p tp show "\<exists>p. create_format_prompt research config = Inr p \<and>
      sublist (topic config) p \<and> sublist ?words p"
    by blast
next
  let ?c = "\<lparr>format_type = Member FACTS_WITH_EMOJI, topic = ''electric vehicles'',
             length_field = ''short'', is_customer_story = False\<rparr>"
  let ?g = "''Keep the post concise, around 150-200 words.''"
  let ?points = "''1'' @ keycap @ '' [Point 1]\<newline>'' @
                 ''            2'' @ keycap @ '' [Point 2]\<newline>'' @
                 ''            3'' @ keycap @ '' [Point 3]\<newline>'' @
                 ''            4'' @ keycap @ '' [Point 4]\<newline>'' @
                 ''            5'' @ keycap @ '' [Point 5]\<newline>''"
  let ?template = "facts_with_emoji_head @ ?g @ template_tail"
  let ?pre = "''Format this research about '' @ ''electric vehicles'' @
      '' into a LinkedIn post.'' @ prompt_gap"
  let ?post = "prompt_gap @ prompt_closing @ research"
  have g: "length_guide (length_field ?c) = Some ?g"
    by (simp add: length_guide_def)
  have p: "create_format_prompt research ?c = Inr (?pre @ ?template @ ?post)"
    unfolding create_format_prompt_valid [OF g] by simp
  have "sublist ''electric vehicles''
      (''Format this research about '' @ ''electric vehicles'' @
       ('' into a LinkedIn post.'' @ prompt_gap) @ ?template @ ?post)"
    by (rule sublist_appendI)
  then have tp: "sublist ''electric vehicles'' (?pre @ ?template @ ?post)"
    by (simp only: append_assoc)
  have template: "sublist ?template (?pre @ ?template @ ?post)"
    by (rule sublist_appendI)
  have "sublist ''150-200 words'' ?template"
    by (rule sublist_in_middle [OF word_count_in_guide(1)])
  then have words: "sublist ''150-200 words'' (?pre @ ?template @ ?post)"
    by (rule sublist_in_middle)
  have "sublist ?points facts_with_emoji_head"
    by code_simp
  then have "sublist ?points ?template"
    by (rule sublist_transitive [OF _ sublist_append_rightI])
  then have points: "sublist ?points (?pre @ ?template @ ?post)"
    by (rule sublist_in_middle)
  from p tp words points template
  show "\<exists>p. create_format_prompt research ?c = Inr p \<and>
      sublist ''electric vehicles'' p \<and> sublist ''150-200 words'' p \<and>
      sublist ?points p \<and> sublist ?template p"
    by blast
qed

theorem prompt_has_topic_and_word_count_witness:
  "\<exists>p. create_format_prompt ''Charging points doubled.''
         \<lparr>format_type = Member INDUSTRY_INSIGHT, topic = ''heat pumps'',
          length_field = ''long'', is_customer_story = False\<rparr> = Inr p \<and>
       sublist ''heat pumps'' p \<and> sublist ''350-450 words'' p"
  using prompt_has_topic_and_word_count [of
      "\<lparr>format_type = Member INDUSTRY_INSIGHT, topic = ''heat pumps'',
        length_field = ''long'', is_customer_story = False\<rparr>" "''Charging points doubled.''"]
  by simp

text \<open>
  C5. A \<open>format_type\<close> that is none of the four members is treated as
  \<open>FACTS_WITH_EMOJI\<close>: the result is the one for that member, and for a length of the
  table it is the instruction with the facts template as its body, not an error.
\<close>

theorem unknown_format_falls_back_to_facts:
  assumes "\<forall>f. format_type config \<noteq> Member f"
  shows "create_format_prompt research config =
           create_format_prompt research (config\<lparr>format_type := Member FACTS_WITH_EMOJI\<rparr>) \<and>
         (length_field config \<in> {''short'', ''medium'', ''long''} \<longrightarrow>
            (\<exists>g. length_guide (length_field config) = Some g \<and>
               create_format_prompt research config =
                 Inr (''Format this research about '' @ topic config @
                      '' into a LinkedIn post.'' @ prompt_gap @
                      (facts_with_emoji_head @ g @ template_tail) @ prompt_gap @
                      (if is_customer_story config then customer_story_text else []) @
                      prompt_closing @ research)))"
proof (cases "length_guide (length_field config)")
  case None
  then have "length_field config \<notin> {''short'', ''medium'', ''long''}"
    by (simp add: length_guide_None)
  moreover have "create_format_prompt research config = Inl (KeyError (length_field config))"
    by (rule create_format_prompt_invalid [OF None])
  moreover have "create_format_prompt research (config\<lparr>format_type := Member FACTS_WITH_EMOJI\<rparr>) =
      Inl (KeyError (length_field config))"
    using create_format_prompt_invalid [of "config\<lparr>format_type := Member FACTS_WITH_EMOJI\<rparr>"] None
    by simp
  ultimately show ?thesis by simp
next
  case (Some g)
  have unknown: "format_type config = PyNone \<or> (\<exists>s. format_type config = PyStr s)"
    using assms by (cases "format_type config") auto
  have "length_guide (length_field (config\<lparr>format_type := Member FACTS_WITH_EMOJI\<rparr>)) = Some g"
    using Some by simp
  from create_format_prompt_valid [OF this] create_format_prompt_valid [OF Some] unknown Some
  show ?thesis by auto
qed

theorem unknown_format_falls_back_to_facts_witness:
  "create_format_prompt ''Sales grew.''
     \<lparr>format_type = PyStr ''story_based'', topic = ''electric vehicles'',
      length_field = ''medium'', is_customer_story = False\<rparr> =
   Inr (''Format this research about '' @ ''electric vehicles'' @
        '' into a LinkedIn post.'' @ prompt_gap @
        (facts_with_emoji_head @ ''Aim for around 250-300 words total.'' @ template_tail) @
        prompt_gap @ prompt_closing @ ''Sales grew.'')"
proof -
  let ?c = "\<lparr>format_type = PyStr ''story_based'', topic = ''electric vehicles'',
             length_field = ''medium'', is_customer_story = False\<rparr>"
  have unknown: "\<forall>f. format_type ?c \<noteq> Member f"
    by simp
  have valid: "length_field ?c \<in> {''short'', ''medium'', ''long''}"
    by simp
  from unknown_format_falls_back_to_facts [OF unknown, of "''Sales grew.''"] valid
  obtain g where g: "length_guide (length_field ?c) = Some g"
    and p: "create_format_prompt ''Sales grew.'' ?c =
      Inr (''Format this research about '' @ topic ?c @ '' into a LinkedIn post.'' @
           prompt_gap @ (facts_with_emoji_head @ g @ template_tail) @ prompt_gap @
           (if is_customer_story ?c then customer_story_text else []) @
           prompt_closing @ ''Sales grew.'')"
    by blast
  from g have "g = ''Aim for around 250-300 words total.''"
    by (simp add: length_guide_def)
  with p show ?thesis
    by simp
qed

section \<open>Claims about the configuration\<close>

lemma read_choice_skip:
  "set junk \<inter> set valid = {} \<Longrightarrow> c \<in> set valid \<Longrightarrow>
     read_choice valid (junk @ c # rest) = (Inr c, rest)"
  by (induction junk) auto

lemma read_choice_valid:
  "read_choice valid ls = (Inr c, rest) \<Longrightarrow> c \<in> set valid"
  by (induction ls) (auto split: if_splits)

lemma ask_until_valid:
  "ask_until valid w = (Inr c, w') \<Longrightarrow> c \<in> set valid"
  by (auto simp: ask_until_def split: prod.splits dest: read_choice_valid)

lemma ask_until_skip:
  assumes "stdin w = junk @ c # rest" and "set junk \<inter> set valid = {}" and "c \<in> set valid"
  shows "ask_until valid w = (Inr c, w\<lparr>stdin := rest\<rparr>)"
  using assms by (simp add: ask_until_def read_choice_skip)

lemma lower_char_y:
  "(let n = (of_char c :: nat) in if 65 \<le> n \<and> n \<le> 90 then char_of (n + 32) else c) = CHR ''y''
     \<longleftrightarrow> c = CHR ''y'' \<or> c = CHR ''Y''"
proof -
  define n where "n = (of_char c :: nat)"
  have c: "c = char_of n"
    by (simp add: n_def)
  have lt: "n < 256"
    by (simp add: n_def)
  have y: "c = CHR ''y'' \<longleftrightarrow> n = 121" and Y: "c = CHR ''Y'' \<longleftrightarrow> n = 89"
    using lt by (auto simp: c char_of_eq_iff take_bit_eq_mod)
  show ?thesis
  proof (cases "65 \<le> n \<and> n \<le> 90")
    case True
    then have "char_of (n + 32) = CHR ''y'' \<longleftrightarrow> n = 89"
      by (auto simp: char_of_eq_iff take_bit_eq_mod)
    with True y Y show ?thesis
      unfolding Let_def n_def [symmetric] by auto
  next
    case False
    with y Y show ?thesis
      unfolding Let_def n_def [symmetric] by auto
  qed
qed

lemma lower_y: "lower s = ''y'' \<longleftrightarrow> s = ''y'' \<or> s = ''Y''"
proof (cases s)
  case Nil
  then show ?thesis by (simp add: lower_def)
next
  case (Cons c cs)
  show ?thesis
  proof (cases cs)
    case Nil
    with Cons lower_char_y [of c] show ?thesis
      by (simp add: lower_def)
  next
    case (Cons d ds)
    with \<open>s = c # cs\<close> show ?thesis
      by (simp add: lower_def)
  qed
qed

text \<open>What \<open>get_user_preferences\<close> returns on an input that answers every question: the
  topic, invalid format choices, a format choice, the customer-story answer if the choice
  was \<open>2\<close>, invalid length choices, a length choice.\<close>

lemma get_user_preferences_run:
  assumes "stdin w = tp # junk1 @ fc # question @ junk2 @ lc # rest"
    and "set junk1 \<inter> {''1'', ''2'', ''3'', ''4''} = {}"
    and "format_map fc = Some fmt"
    and "question = (if fc = ''2'' then [answer] else [])"
    and "set junk2 \<inter> {''1'', ''2'', ''3''} = {}"
    and "length_map lc = Some len"
  shows "get_user_preferences w =
     (Inr \<lparr> format_type = Member fmt, topic = tp, length_field = len,
            is_customer_story = (fc = ''2'' \<and> (answer = ''y'' \<or> answer = ''Y'')) \<rparr>,
      w\<lparr>stdin := rest\<rparr>)"
proof -
  have fc: "fc \<in> set [''1'', ''2'', ''3'', ''4'']"
    using assms(3) by (auto simp: format_map_def split: if_splits)
  have lc: "lc \<in> set [''1'', ''2'', ''3'']"
    using assms(6) by (auto simp: length_map_def split: if_splits)
  let ?w1 = "w\<lparr>stdin := junk1 @ fc # question @ junk2 @ lc # rest\<rparr>"
  let ?w2 = "w\<lparr>stdin := question @ junk2 @ lc # rest\<rparr>"
  let ?w3 = "w\<lparr>stdin := junk2 @ lc # rest\<rparr>"
  have 1: "py_input w = (Inr tp, ?w1)"
    using assms(1) by (simp add: py_input_def)
  have 2: "ask_until [''1'', ''2'', ''3'', ''4''] ?w1 = (Inr fc, ?w2)"
    using ask_until_skip [of ?w1 junk1 fc "question @ junk2 @ lc # rest" "[''1'', ''2'', ''3'', ''4'']"]
      assms(2) fc by simp
  have 3: "ask_customer_story fc ?w2 =
      (Inr (fc = ''2'' \<and> (answer = ''y'' \<or> answer = ''Y'')), ?w3)"
    using assms(4) by (simp add: ask_customer_story_def py_input_def lower_y)
  have 4: "ask_until [''1'', ''2'', ''3''] ?w3 = (Inr lc, w\<lparr>stdin := rest\<rparr>)"
    using ask_until_skip [of ?w3 junk2 lc rest "[''1'', ''2'', ''3'']"] assms(5) lc by simp
  show ?thesis
    using assms(3,6)
    by (simp add: get_user_preferences_def 1 2 3 4 getitem_def PostConfig_init_def)
qed

text \<open>What every configuration that \<open>get_user_preferences\<close> returns looks like.\<close>

lemma get_user_preferences_result:
  assumes "get_user_preferences w = (Inr config, w')"
  shows "length_field config \<in> {''short'', ''medium'', ''long''} \<and>
         (is_customer_story config \<longrightarrow> format_type config = Member STORY_BASED)"
proof -
  from assms obtain tp w1 fc w2 cs w3 lc w4 fmt len
    where "ask_customer_story fc w2 = (Inr cs, w3)"
      and fmt: "format_map fc = Some fmt"
      and len: "length_map lc = Some len"
      and config: "config = PostConfig_init (Member fmt) tp (Some len) (Some cs)"
    by (auto simp: get_user_preferences_def getitem_def split: prod.splits sum.splits option.splits)
  then have "cs \<longrightarrow> fc = ''2''"
    by (auto simp: ask_customer_story_def split: if_splits prod.splits sum.splits)
  moreover have "fc = ''2'' \<longrightarrow> fmt = STORY_BASED"
    using fmt by (auto simp: format_map_def split: if_splits)
  moreover have "len \<in> {''short'', ''medium'', ''long''}"
    using len by (auto simp: length_map_def split: if_splits)
  ultimately show ?thesis
    by (simp add: config PostConfig_init_def)
qed

text \<open>
  C10. A configuration returned by \<open>get_user_preferences\<close> has \<open>is_customer_story\<close> set
  only with the story-based format. After a format choice other than \<open>2\<close> no line is
  read for the customer-story question and the flag is false; after the choice \<open>2\<close> the
  next line is the answer, and the flag is true exactly when the answer is \<open>y\<close> or \<open>Y\<close>.
\<close>

theorem customer_story_asked_for_story_format_only:
  "(get_user_preferences w = (Inr config, w') \<and> is_customer_story config \<longrightarrow>
      format_type config = Member STORY_BASED) \<and>
   (stdin w = tp # junk1 @ fc # junk2 @ lc # rest \<and>
    set junk1 \<inter> {''1'', ''2'', ''3'', ''4''} = {} \<and> fc \<in> {''1'', ''3'', ''4''} \<and>
    set junk2 \<inter> {''1'', ''2'', ''3''} = {} \<and> lc \<in> {''1'', ''2'', ''3''} \<longrightarrow>
      (\<exists>c. get_user_preferences w = (Inr c, w\<lparr>stdin := rest\<rparr>) \<and>
           format_type c \<noteq> Member STORY_BASED \<and> \<not> is_customer_story c)) \<and>
   (stdin w = tp # junk1 @ ''2'' # answer # junk2 @ lc # rest \<and>
    set junk1 \<inter> {''1'', ''2'', ''3'', ''4''} = {} \<and>
    set junk2 \<inter> {''1'', ''2'', ''3''} = {} \<and> lc \<in> {''1'', ''2'', ''3''} \<longrightarrow>
      (\<exists>c. get_user_preferences w = (Inr c, w\<lparr>stdin := rest\<rparr>) \<and>
           format_type c = Member STORY_BASED \<and>
           is_customer_story c = (answer = ''y'' \<or> answer = ''Y'')))"
proof (intro conjI impI)
  assume "get_user_preferences w = (Inr config, w') \<and> is_customer_story config"
  then show "format_type config = Member STORY_BASED"
    using get_user_preferences_result [of w config w'] by simp
next
  assume a: "stdin w = tp # junk1 @ fc # junk2 @ lc # rest \<and>
    set junk1 \<inter> {''1'', ''2'', ''3'', ''4''} = {} \<and> fc \<in> {''1'', ''3'', ''4''} \<and>
    set junk2 \<inter> {''1'', ''2'', ''3''} = {} \<and> lc \<in> {''1'', ''2'', ''3''}"
  then obtain fmt where fmt: "format_map fc = Some fmt" and other: "fmt \<noteq> STORY_BASED" and fc: "fc \<noteq> ''2''"
    by (auto simp: format_map_def)
  from a obtain len where len: "length_map lc = Some len"
    by (auto simp: length_map_def)
  have "get_user_preferences w =
     (Inr \<lparr> format_type = Member fmt, topic = tp, length_field = len,
            is_customer_story = (fc = ''2'' \<and> (answer = ''y'' \<or> answer = ''Y'')) \<rparr>,
      w\<lparr>stdin := rest\<rparr>)"
  proof (rule get_user_preferences_run)
    show "stdin w = tp # junk1 @ fc # [] @ junk2 @ lc # rest"
      using a by simp
    show "set junk1 \<inter> {''1'', ''2'', ''3'', ''4''} = {}"
      using a by simp
    show "format_map fc = Some fmt"
      by fact
    show "[] = (if fc = ''2'' then [answer] else [])"
      using fc by simp
    show "set junk2 \<inter> {''1'', ''2'', ''3''} = {}"
      using a by simp
    show "length_map lc = Some len"
      by fact
  qed
  with other fc
  show "\<exists>c. get_user_preferences w = (Inr c, w\<lparr>stdin := rest\<rparr>) \<and>
      format_type c \<noteq> Member STORY_BASED \<and> \<not> is_customer_story c"
    by simp
next
  assume a: "stdin w = tp # junk1 @ ''2'' # answer # junk2 @ lc # rest \<and>
    set junk1 \<inter> {''1'', ''2'', ''3'', ''4''} = {} \<and>
    set junk2 \<inter> {''1'', ''2'', ''3''} = {} \<and> lc \<in> {''1'', ''2'', ''3''}"
  have fmt: "format_map ''2'' = Some STORY_BASED"
    by (simp add: format_map_def)
  from a obtain len where len: "length_map lc = Some len"
    by (auto simp: length_map_def)
  have "get_user_preferences w =
     (Inr \<lparr> format_type = Member STORY_BASED, topic = tp, length_field = len,
            is_customer_story = (''2'' = ''2'' \<and> (answer = ''y'' \<or> answer = ''Y'')) \<rparr>,
      w\<lparr>stdin := rest\<rparr>)"
  proof (rule get_user_preferences_run)
    show "stdin w = tp # junk1 @ ''2'' # [answer] @ junk2 @ lc # rest"
      using a by simp
    show "set junk1 \<inter> {''1'', ''2'', ''3'', ''4''} = {}"
      using a by simp
    show "format_map ''2'' = Some STORY_BASED"
      by fact
    show "[answer] = (if ''2'' = ''2'' then [answer] else [])"
      by simp
    show "set junk2 \<inter> {''1'', ''2'', ''3''} = {}"
      using a by simp
    show "length_map lc = Some len"
      by fact
  qed
  then show "\<exists>c. get_user_preferences w = (Inr c, w\<lparr>stdin := rest\<rparr>) \<and>
      format_type c = Member STORY_BASED \<and>
      is_customer_story c = (answer = ''y'' \<or> answer = ''Y'')"
    by simp
qed

theorem customer_story_asked_for_story_format_only_witness:
  "get_user_preferences \<lparr>stdin = [''heat pumps'', ''5'', ''2'', ''Y'', ''0'', ''3'', ''2''], calls = [], stack_room = 990\<rparr> =
     (Inr \<lparr>format_type = Member STORY_BASED, topic = ''heat pumps'', length_field = ''long'',
           is_customer_story = True\<rparr>,
      \<lparr>stdin = [''2''], calls = [], stack_room = 990\<rparr>) \<and>
   get_user_preferences \<lparr>stdin = [''heat pumps'', ''3'', ''y'', ''1''], calls = [], stack_room = 990\<rparr> =
     (Inr \<lparr>format_type = Member GUIDE_BASED, topic = ''heat pumps'', length_field = ''short'',
           is_customer_story = False\<rparr>,
      \<lparr>stdin = [], calls = [], stack_room = 990\<rparr>)"
proof -
  let ?w = "\<lparr>stdin = [''heat pumps'', ''5'', ''2'', ''Y'', ''0'', ''3'', ''2''], calls = [], stack_room = 990\<rparr>"
  let ?v = "\<lparr>stdin = [''heat pumps'', ''3'', ''y'', ''1''], calls = [], stack_room = 990\<rparr>"
  have story: "\<exists>c. get_user_preferences ?w = (Inr c, ?w\<lparr>stdin := [''2'']\<rparr>) \<and>
      format_type c = Member STORY_BASED \<and> is_customer_story c = (''Y'' = ''y'' \<or> ''Y'' = ''Y'')"
    using customer_story_asked_for_story_format_only [of ?w _ _ "''heat pumps''" "[''5'']" _
        "[''0'']" "''3''" "[''2'']" "''Y''"]
    by simp
  have guide: "\<exists>c. get_user_preferences ?v = (Inr c, ?v\<lparr>stdin := []\<rparr>) \<and>
      format_type c \<noteq> Member STORY_BASED \<and> \<not> is_customer_story c"
    using customer_story_asked_for_story_format_only [of ?v _ _ "''heat pumps''" "[]" "''3''"
        "[''y'']" "''1''" "[]"]
    by simp
  from story obtain c where c: "get_user_preferences ?w = (Inr c, ?w\<lparr>stdin := [''2'']\<rparr>)"
    and "format_type c = Member STORY_BASED" and "is_customer_story c"
    by auto
  moreover from get_user_preferences_run [of ?w "''heat pumps''" "[''5'']" "''2''" "[''Y'']"
      "[''0'']" "''3''" "[''2'']" STORY_BASED "''Y''" "''long''"]
  have "get_user_preferences ?w =
     (Inr \<lparr>format_type = Member STORY_BASED, topic = ''heat pumps'', length_field = ''long'',
           is_customer_story = True\<rparr>, \<lparr>stdin = [''2''], calls = [], stack_room = 990\<rparr>)"
    by (simp add: format_map_def length_map_def)
  moreover from guide obtain d where "get_user_preferences ?v = (Inr d, ?v\<lparr>stdin := []\<rparr>)"
    and "\<not> is_customer_story d"
    by auto
  moreover from get_user_preferences_run [of ?v "''heat pumps''" "[]" "''3''" "[]"
      "[''y'']" "''1''" "[]" GUIDE_BASED _ "''short''"]
  have "get_user_preferences ?v =
     (Inr \<lparr>format_type = Member GUIDE_BASED, topic = ''heat pumps'', length_field = ''short'',
           is_customer_story = False\<rparr>, \<lparr>stdin = [], calls = [], stack_room = 990\<rparr>)"
    by (simp add: format_map_def length_map_def)
  ultimately show ?thesis
    by simp
qed

text \<open>
  C4, as the code has it. \<open>PostConfig.__init__\<close> stores the length it is given (or
  \<open>medium\<close>) without a check. A configuration that \<open>get_user_preferences\<close> returns has one
  of the three lengths, and \<open>_create_format_prompt\<close> builds an instruction exactly for
  these three; for any other length it raises \<open>KeyError\<close>.
\<close>

theorem collected_config_has_listed_length:
  "(get_user_preferences w = (Inr config, w') \<longrightarrow>
      length_field config \<in> {''short'', ''medium'', ''long''}) \<and>
   length_field (PostConfig_init ft tp len ics) = (case len of None \<Rightarrow> ''medium'' | Some l \<Rightarrow> l) \<and>
   ((\<exists>p. create_format_prompt research c = Inr p) = (length_field c \<in> {''short'', ''medium'', ''long''})) \<and>
   (create_format_prompt research c = Inl (KeyError (length_field c))) =
      (length_field c \<notin> {''short'', ''medium'', ''long''})"
proof (intro conjI impI)
  assume "get_user_preferences w = (Inr config, w')"
  then show "length_field config \<in> {''short'', ''medium'', ''long''}"
    using get_user_preferences_result by blast
next
  show "length_field (PostConfig_init ft tp len ics) = (case len of None \<Rightarrow> ''medium'' | Some l \<Rightarrow> l)"
    by (simp add: PostConfig_init_def)
next
  show "(\<exists>p. create_format_prompt research c = Inr p) = (length_field c \<in> {''short'', ''medium'', ''long''})"
  proof (cases "length_guide (length_field c)")
    case None
    with create_format_prompt_invalid [OF None, of research] show ?thesis
      by (simp add: length_guide_None)
  next
    case (Some g)
    then have "length_field c \<in> {''short'', ''medium'', ''long''}"
      using length_guide_None [of "length_field c"] by auto
    with create_format_prompt_valid [OF Some, of research] show ?thesis
      by simp
  qed
next
  show "(create_format_prompt research c = Inl (KeyError (length_field c))) =
      (length_field c \<notin> {''short'', ''medium'', ''long''})"
  proof (cases "length_guide (length_field c)")
    case None
    with create_format_prompt_invalid [OF None, of research] show ?thesis
      by (simp add: length_guide_None)
  next
    case (Some g)
    then have "length_field c \<in> {''short'', ''medium'', ''long''}"
      using length_guide_None [of "length_field c"] by auto
    with create_format_prompt_valid [OF Some, of research] show ?thesis
      by simp
  qed
qed

theorem collected_config_has_listed_length_witness:
  "get_user_preferences \<lparr>stdin = [''heat pumps'', ''1'', ''tiny'', ''2''], calls = [], stack_room = 990\<rparr> =
     (Inr \<lparr>format_type = Member FACTS_WITH_EMOJI, topic = ''heat pumps'',
           length_field = ''medium'', is_customer_story = False\<rparr>,
      \<lparr>stdin = [], calls = [], stack_room = 990\<rparr>) \<and>
   length_field \<lparr>format_type = Member FACTS_WITH_EMOJI, topic = ''heat pumps'',
           length_field = ''medium'', is_customer_story = False\<rparr> \<in> {''short'', ''medium'', ''long''}"
proof -
  let ?w = "\<lparr>stdin = [''heat pumps'', ''1'', ''tiny'', ''2''], calls = [], stack_room = 990\<rparr>"
  let ?c = "\<lparr>format_type = Member FACTS_WITH_EMOJI, topic = ''heat pumps'',
             length_field = ''medium'', is_customer_story = False\<rparr>"
  from get_user_preferences_run [of ?w "''heat pumps''" "[]" "''1''" "[]" "[''tiny'']" "''2''" "[]"
      FACTS_WITH_EMOJI _ "''medium''"]
  have run: "get_user_preferences ?w = (Inr ?c, \<lparr>stdin = [], calls = [], stack_room = 990\<rparr>)"
    by (simp add: format_map_def length_map_def)
  with collected_config_has_listed_length [of ?w ?c "\<lparr>stdin = [], calls = [], stack_room = 990\<rparr>"]
  show ?thesis
    by simp
qed

text \<open>
  C4 as stated fails for a configuration constructed directly: the constructor keeps the
  length \<open>tiny\<close>.
\<close>

theorem constructed_config_keeps_any_length:
  "length_field (PostConfig_init (Member FACTS_WITH_EMOJI) ''electric vehicles'' (Some ''tiny'') None)
     \<notin> {''short'', ''medium'', ''long''}"
  by (simp add: PostConfig_init_def)

section \<open>Claims about the start-up\<close>

text \<open>
  C6. When, after \<open>load_dotenv\<close>, the research key or the generation key is missing or
  empty, the constructor returns a \<open>ValueError\<close> that names the variable, the research key
  being tested first, and no generator; it returns a generator exactly when both keys
  are present and not empty. The constructor is a function of the environment alone: it
  has no access to the services, and the operations that call them need the generator
  that was not returned.
\<close>

theorem missing_credential_fails_startup:
  "(load_dotenv dotenv environ ''PERPLEXITY_API_KEY'' \<in> {None, Some []} \<longrightarrow>
      LinkedInPostGenerator_init dotenv environ =
        Inl (ValueError ''PERPLEXITY_API_KEY not found in environment variables'')) \<and>
   (load_dotenv dotenv environ ''PERPLEXITY_API_KEY'' \<notin> {None, Some []} \<and>
    load_dotenv dotenv environ ''ANTHROPIC_API_KEY'' \<in> {None, Some []} \<longrightarrow>
      LinkedInPostGenerator_init dotenv environ =
        Inl (ValueError ''ANTHROPIC_API_KEY not found in environment variables'')) \<and>
   ((\<exists>self. LinkedInPostGenerator_init dotenv environ = Inr self) =
      (load_dotenv dotenv environ ''PERPLEXITY_API_KEY'' \<notin> {None, Some []} \<and>
       load_dotenv dotenv environ ''ANTHROPIC_API_KEY'' \<notin> {None, Some []}))"
  by (auto simp: LinkedInPostGenerator_init_def Let_def split: option.splits)

theorem missing_credential_fails_startup_witness:
  "LinkedInPostGenerator_init Map.empty Map.empty =
     Inl (ValueError ''PERPLEXITY_API_KEY not found in environment variables'') \<and>
   LinkedInPostGenerator_init [''ANTHROPIC_API_KEY'' \<mapsto> []] [''PERPLEXITY_API_KEY'' \<mapsto> ''pk'']  =
     Inl (ValueError ''ANTHROPIC_API_KEY not found in environment variables'')"
  using missing_credential_fails_startup [of Map.empty Map.empty]
    missing_credential_fails_startup [of "[''ANTHROPIC_API_KEY'' \<mapsto> []]" "[''PERPLEXITY_API_KEY'' \<mapsto> ''pk'']"]
  by (simp add: load_dotenv_def)

section \<open>Claims about the review loop\<close>

text \<open>One iteration of the loop, by the line that \<open>input()\<close> reads.\<close>

lemma review_loop_revise:
  assumes "stdin w = ''1'' # feedback # rest"
  shows "review_loop svc self config post w =
     (case revise_post svc (formatter self) post feedback (w\<lparr>stdin := rest\<rparr>) of
        (Inl e, w') \<Rightarrow> (Inl e, w')
      | (Inr revised_post, w') \<Rightarrow> review_loop svc self config revised_post w')"
  using assms by (subst review_loop.simps) (simp add: py_input_def)

lemma review_loop_accept:
  assumes "stdin w = ''2'' # rest"
  shows "review_loop svc self config post w = (Inr post, w\<lparr>stdin := rest\<rparr>)"
  using assms by (subst review_loop.simps) (simp add: py_input_def)

lemma review_loop_restart:
  assumes "stdin w = ''3'' # rest"
  shows "review_loop svc self config post w =
     (case stack_room w of
        0 \<Rightarrow> (Inl RecursionError, w\<lparr>stdin := rest\<rparr>)
      | Suc room \<Rightarrow>
          (case feedback_loop svc self (w\<lparr>stdin := rest, stack_room := room\<rparr>) of
             (result, w2) \<Rightarrow> (result, w2\<lparr>stack_room := Suc room\<rparr>)))"
  using assms by (subst review_loop.simps) (simp add: py_input_def split: nat.splits)

lemma review_loop_invalid:
  assumes "stdin w = choice # rest" and "choice \<notin> {''1'', ''2'', ''3''}"
  shows "review_loop svc self config post w = review_loop svc self config post (w\<lparr>stdin := rest\<rparr>)"
  using assms by (subst review_loop.simps) (simp add: py_input_def)

text \<open>
  C9. A line other than \<open>1\<close>, \<open>2\<close> and \<open>3\<close> is used up and the loop goes on as it
  stood: with the same post and configuration, and in a world whose record of service
  calls is unchanged. The same holds for any number of such lines in a row.
\<close>

theorem invalid_choice_reprompts:
  "(stdin w = choice # rest \<and> choice \<notin> {''1'', ''2'', ''3''} \<longrightarrow>
      review_loop svc self config post w = review_loop svc self config post (w\<lparr>stdin := rest\<rparr>) \<and>
      calls (w\<lparr>stdin := rest\<rparr>) = calls w) \<and>
   (stdin w = junk @ rest \<and> set junk \<inter> {''1'', ''2'', ''3''} = {} \<longrightarrow>
      review_loop svc self config post w = review_loop svc self config post (w\<lparr>stdin := rest\<rparr>))"
proof (intro conjI impI)
  assume "stdin w = choice # rest \<and> choice \<notin> {''1'', ''2'', ''3''}"
  then show "review_loop svc self config post w =
      review_loop svc self config post (w\<lparr>stdin := rest\<rparr>)"
    by (simp add: review_loop_invalid)
next
  show "calls (w\<lparr>stdin := rest\<rparr>) = calls w"
    by simp
next
  assume "stdin w = junk @ rest \<and> set junk \<inter> {''1'', ''2'', ''3''} = {}"
  then show "review_loop svc self config post w =
      review_loop svc self config post (w\<lparr>stdin := rest\<rparr>)"
  proof (induction junk arbitrary: w)
    case Nil
    then have "w\<lparr>stdin := rest\<rparr> = w"
      by (cases w) simp
    then show ?case by simp
  next
    case (Cons c junk)
    then have c: "stdin w = c # junk @ rest" and "c \<notin> {''1'', ''2'', ''3''}"
      by auto
    then have "review_loop svc self config post w =
        review_loop svc self config post (w\<lparr>stdin := junk @ rest\<rparr>)"
      by (rule review_loop_invalid)
    also have "\<dots> = review_loop svc self config post (w\<lparr>stdin := junk @ rest\<rparr>\<lparr>stdin := rest\<rparr>)"
      using Cons.prems by (intro Cons.IH) simp
    finally show ?case by simp
  qed
qed

theorem invalid_choice_reprompts_witness:
  "review_loop demo_services demo_generator demo_config ''a draft''
     \<lparr>stdin = [''4'', ''yes'', ''2''], calls = [], stack_room = 990\<rparr> =
   (Inr ''a draft'', \<lparr>stdin = [], calls = [], stack_room = 990\<rparr>)"
proof -
  let ?w = "\<lparr>stdin = [''4'', ''yes'', ''2''], calls = [], stack_room = 990\<rparr>"
  have one: "review_loop demo_services demo_generator demo_config ''a draft'' ?w =
      review_loop demo_services demo_generator demo_config ''a draft'' (?w\<lparr>stdin := [''yes'', ''2'']\<rparr>)"
    using invalid_choice_reprompts [of ?w "''4''" "[''yes'', ''2'']"] by simp
  have more: "review_loop demo_services demo_generator demo_config ''a draft'' ?w =
      review_loop demo_services demo_generator demo_config ''a draft'' (?w\<lparr>stdin := [''2'']\<rparr>)"
    using invalid_choice_reprompts [of ?w _ "[''2'']" _ _ _ _ "[''4'', ''yes'']"] by simp
  have "review_loop demo_services demo_generator demo_config ''a draft'' (?w\<lparr>stdin := [''2'']\<rparr>) =
      (Inr ''a draft'', \<lparr>stdin = [], calls = [], stack_room = 990\<rparr>)"
    by (simp add: review_loop_accept [where rest = "[]"])
  with one more show ?thesis
    by simp
qed

text \<open>A session of the example services that chooses the facts format and the short
  length reaches the review loop with the rest of the input and the same stack.\<close>

lemma demo_generate_post:
  assumes "length_field c \<in> {''short'', ''medium'', ''long''}"
  shows "\<exists>p w'. generate_post demo_services demo_generator (Some c) w = (Inr p, w') \<and>
           stdin w' = stdin w \<and> stack_room w' = stack_room w"
proof -
  from assms obtain g where g: "length_guide (length_field c) = Some g"
    using length_guide_None [of "length_field c"] by (cases "length_guide (length_field c)") auto
  show ?thesis
    by (simp add: generate_post_def get_research_def stream_response_def format_post_def
        messages_create_def demo_services_def create_format_prompt_valid [OF g])
qed

lemma demo_session_reaches_review:
  assumes "stdin w = tp # ''1'' # ''1'' # rest"
  shows "\<exists>c p w'. feedback_loop demo_services demo_generator w =
             review_loop demo_services demo_generator c p w' \<and>
           stdin w' = rest \<and> stack_room w' = stack_room w"
proof -
  let ?c = "\<lparr> format_type = Member FACTS_WITH_EMOJI, topic = tp, length_field = ''short'',
              is_customer_story = False \<rparr>"
  have "get_user_preferences w =
      (Inr \<lparr> format_type = Member FACTS_WITH_EMOJI, topic = tp, length_field = ''short'',
             is_customer_story = (''1'' = ''2'' \<and> (tp = ''y'' \<or> tp = ''Y'')) \<rparr>,
       w\<lparr>stdin := rest\<rparr>)"
  proof (rule get_user_preferences_run)
    show "stdin w = tp # [] @ ''1'' # [] @ [] @ ''1'' # rest"
      using assms by simp
    show "set [] \<inter> {''1'', ''2'', ''3'', ''4''} = {}"
      by simp
    show "format_map ''1'' = Some FACTS_WITH_EMOJI"
      by (simp add: format_map_def)
    show "[] = (if ''1'' = ''2'' then [tp] else [])"
      by simp
    show "set [] \<inter> {''1'', ''2'', ''3''} = {}"
      by simp
    show "length_map ''1'' = Some ''short''"
      by (simp add: length_map_def)
  qed
  then have prefs: "get_user_preferences w = (Inr ?c, w\<lparr>stdin := rest\<rparr>)"
    by simp
  have "length_field ?c \<in> {''short'', ''medium'', ''long''}"
    by simp
  from demo_generate_post [OF this, of "w\<lparr>stdin := rest\<rparr>"]
  obtain p w' where gen: "generate_post demo_services demo_generator (Some ?c) (w\<lparr>stdin := rest\<rparr>) = (Inr p, w')"
    and "stdin w' = rest" and "stack_room w' = stack_room w"
    by auto
  moreover have "feedback_loop demo_services demo_generator w =
      review_loop demo_services demo_generator ?c p w'"
    by (subst feedback_loop.simps) (simp add: prefs gen)
  ultimately show ?thesis
    by blast
qed

lemma fst_frame_given_back:
  "fst (case x of (result, w2) \<Rightarrow> (result, f w2)) = fst x"
  by (cases x) simp

text \<open>With room for \<open>d\<close> nested calls, the restart asked in the session after \<open>d\<close>
  restarts raises \<open>RecursionError\<close>; the input that follows is not read.\<close>

lemma restarts_exhaust_stack:
  "stack_room w = d \<Longrightarrow>
   stdin w = concat (replicate (Suc d) [tp, ''1'', ''1'', ''3'']) @ rest \<Longrightarrow>
   fst (feedback_loop demo_services demo_generator w) = Inl RecursionError"
proof (induction d arbitrary: w)
  case 0
  then have "stdin w = tp # ''1'' # ''1'' # ''3'' # rest"
    by simp
  from demo_session_reaches_review [OF this]
  obtain c p w' where loop: "feedback_loop demo_services demo_generator w =
      review_loop demo_services demo_generator c p w'"
    and w': "stdin w' = ''3'' # rest" "stack_room w' = stack_room w"
    by auto
  from w' 0 show ?case
    by (simp add: loop review_loop_restart [where rest = rest])
next
  case (Suc d)
  let ?rest = "concat (replicate (Suc d) [tp, ''1'', ''1'', ''3'']) @ rest"
  from Suc.prems have "stdin w = tp # ''1'' # ''1'' # ''3'' # ?rest"
    by simp
  from demo_session_reaches_review [OF this]
  obtain c p w' where loop: "feedback_loop demo_services demo_generator w =
      review_loop demo_services demo_generator c p w'"
    and w': "stdin w' = ''3'' # ?rest" "stack_room w' = stack_room w"
    by auto
  have "fst (feedback_loop demo_services demo_generator (w'\<lparr>stdin := ?rest, stack_room := d\<rparr>)) =
      Inl RecursionError"
    by (rule Suc.IH) simp_all
  with w' Suc.prems(1) show ?case
    by (simp add: loop review_loop_restart [where rest = ?rest] fst_frame_given_back)
qed




text \<open>
  C8. On the line \<open>1\<close> the next line is the feedback; \<open>revise_post\<close> is called with the
  current post and that feedback, and the loop goes on with the text it returns in the
  place of the post. On the line \<open>2\<close> the loop returns the current post. After two
  revisions the second has been made on the result of the first, and accepting returns
  the result of the second.
\<close>

theorem revise_replaces_post:
  "(stdin w = ''1'' # feedback # rest \<longrightarrow>
      review_loop svc self config post w =
        (case revise_post svc (formatter self) post feedback (w\<lparr>stdin := rest\<rparr>) of
           (Inl e, w') \<Rightarrow> (Inl e, w')
         | (Inr revised_post, w') \<Rightarrow> review_loop svc self config revised_post w')) \<and>
   (stdin w = ''2'' # rest \<longrightarrow>
      review_loop svc self config post w = (Inr post, w\<lparr>stdin := rest\<rparr>)) \<and>
   (stdin w = ''1'' # feedback # ''1'' # feedback2 # ''2'' # rest \<and>
    revise_post svc (formatter self) post feedback
      (w\<lparr>stdin := ''1'' # feedback2 # ''2'' # rest\<rparr>) = (Inr post1, w1) \<and>
    revise_post svc (formatter self) post1 feedback2 (w1\<lparr>stdin := ''2'' # rest\<rparr>) = (Inr post2, w2) \<longrightarrow>
      review_loop svc self config post w = (Inr post2, w2\<lparr>stdin := rest\<rparr>))"
proof (intro conjI impI)
  assume "stdin w = ''1'' # feedback # rest"
  then show "review_loop svc self config post w =
        (case revise_post svc (formatter self) post feedback (w\<lparr>stdin := rest\<rparr>) of
           (Inl e, w') \<Rightarrow> (Inl e, w')
         | (Inr revised_post, w') \<Rightarrow> review_loop svc self config revised_post w')"
    by (rule review_loop_revise)
next
  assume "stdin w = ''2'' # rest"
  then show "review_loop svc self config post w = (Inr post, w\<lparr>stdin := rest\<rparr>)"
    by (rule review_loop_accept)
next
  assume a: "stdin w = ''1'' # feedback # ''1'' # feedback2 # ''2'' # rest \<and>
    revise_post svc (formatter self) post feedback
      (w\<lparr>stdin := ''1'' # feedback2 # ''2'' # rest\<rparr>) = (Inr post1, w1) \<and>
    revise_post svc (formatter self) post1 feedback2 (w1\<lparr>stdin := ''2'' # rest\<rparr>) = (Inr post2, w2)"
  then have first: "review_loop svc self config post w = review_loop svc self config post1 w1"
    by (simp add: review_loop_revise [where rest = "''1'' # feedback2 # ''2'' # rest"])
  from a have in1: "stdin w1 = ''1'' # feedback2 # ''2'' # rest"
    using revise_post_stdin by fastforce
  with a have second: "review_loop svc self config post1 w1 = review_loop svc self config post2 w2"
    by (simp add: review_loop_revise [where rest = "''2'' # rest"])
  from a have "stdin w2 = ''2'' # rest"
    using revise_post_stdin by fastforce
  then have "review_loop svc self config post2 w2 = (Inr post2, w2\<lparr>stdin := rest\<rparr>)"
    by (rule review_loop_accept)
  with first second show "review_loop svc self config post w = (Inr post2, w2\<lparr>stdin := rest\<rparr>)"
    by simp
qed

theorem revise_replaces_post_witness:
  "fst (review_loop demo_services demo_generator demo_config ''a draft''
          \<lparr>stdin = [''1'', ''shorter'', ''2''], calls = [], stack_room = 990\<rparr>) = Inr ''* post''"
proof -
  let ?w = "\<lparr>stdin = [''1'', ''shorter'', ''2''], calls = [], stack_room = 990\<rparr>"
  have "review_loop demo_services demo_generator demo_config ''a draft'' ?w =
      (case revise_post demo_services (formatter demo_generator) ''a draft'' ''shorter''
              (?w\<lparr>stdin := [''2'']\<rparr>) of
         (Inl e, w') \<Rightarrow> (Inl e, w')
       | (Inr revised_post, w') \<Rightarrow> review_loop demo_services demo_generator demo_config revised_post w')"
    using revise_replaces_post [of ?w "''shorter''" "[''2'']"] by simp
  moreover have "fst (case revise_post demo_services (formatter demo_generator) ''a draft'' ''shorter''
              (?w\<lparr>stdin := [''2'']\<rparr>) of
         (Inl e, w') \<Rightarrow> (Inl e, w')
       | (Inr revised_post, w') \<Rightarrow> review_loop demo_services demo_generator demo_config revised_post w') =
      Inr ''* post''"
    by code_simp
  ultimately show ?thesis
    by simp
qed

section \<open>Claims about the research\<close>

lemma collect_chunks_fragments:
  "[] \<notin> set chunks \<Longrightarrow>
     collect_chunks (map Inr chunks) content = Inr (content @ text_fragments chunks)"
proof (induction chunks arbitrary: content)
  case Nil
  then show ?case by (simp add: text_fragments_def)
next
  case (Cons c chunks)
  then obtain d ds where c: "c = d # ds"
    by (cases c) auto
  from Cons have IH: "\<And>content. collect_chunks (map Inr chunks) content =
      Inr (content @ text_fragments chunks)"
    by simp
  show ?case
    by (cases d) (simp_all add: c IH text_fragments_def)
qed

text \<open>
  C3. Let the stream that the service gives to the streaming request deliver chunks that
  all have a choice, and let the text of the single-shot response be the concatenation
  of the text fragments of these chunks. Then \<open>get_research\<close> returns that concatenation,
  the fragments in their order of arrival, with \<open>stream\<close> set and without.
\<close>

theorem streaming_equals_single_shot:
  assumes "stream_reply svc (calls w @ [ChatCompletionsCreate key
             \<lparr>chat_model = ''sonar-pro'', chat_messages = create_prompt tp, chat_stream = True\<rparr>]) =
           Inr (map Inr chunks)"
    and "[] \<notin> set chunks"
    and "completion_reply svc (calls w @ [ChatCompletionsCreate key
             \<lparr>chat_model = ''sonar-pro'', chat_messages = create_prompt tp, chat_stream = False\<rparr>]) =
           Inr (body # others)"
    and "concat (text_fragments chunks) = body"
  shows "fst (get_research svc key tp True w) = Inr (concat (text_fragments chunks)) \<and>
         fst (get_research svc key tp False w) = Inr body \<and>
         fst (get_research svc key tp True w) = fst (get_research svc key tp False w)"
proof -
  have "collect_chunks (map Inr chunks) [] = Inr (text_fragments chunks)"
    using collect_chunks_fragments [OF assms(2), of "[]"] by simp
  with assms(1) have streamed: "fst (get_research svc key tp True w) = Inr (concat (text_fragments chunks))"
    by (simp add: get_research_def stream_response_def)
  from assms(3) have single: "fst (get_research svc key tp False w) = Inr body"
    by (simp add: get_research_def get_complete_response_def)
  from streamed single assms(4) show ?thesis
    by simp
qed

theorem streaming_equals_single_shot_witness:
  "fst (get_research demo_services ''pk'' ''electric vehicles'' True \<lparr>stdin = [], calls = [], stack_room = 990\<rparr>) =
     Inr ''EV sales doubled.'' \<and>
   fst (get_research demo_services ''pk'' ''electric vehicles'' False \<lparr>stdin = [], calls = [], stack_room = 990\<rparr>) =
     Inr ''EV sales doubled.''"
  using streaming_equals_single_shot [of demo_services "\<lparr>stdin = [], calls = [], stack_room = 990\<rparr>" "''pk''"
      "''electric vehicles''" "[[Some ''EV sales ''], [None], [Some ''doubled.'']]"
      "''EV sales doubled.''" "[]"]
  by (simp add: demo_services_def text_fragments_def)

end
